(* ===== verification/Prelude.thy ===== *)
theory Prelude
  imports Complex_Main "HOL-Library.Word" "HOL-Library.Sublist"
begin

text \<open>
  Shared vocabulary of the development: the machine types of the C++ sources
  (\<open>uint32_t\<close>, \<open>unsigned long\<close>, \<open>float\<close>), the early-return combinator used to
  model the chains of \<open>return\<close> statements of \<open>parseInput\<close>, the collection
  \<open>model_simps\<close> of evaluation rules the component theories register, and generic
  lemmas on lists shared by the component proofs.

  A C++ \<open>float\<close> is modelled by \<open>flt\<close>: an exact real value or one of the IEEE
  special values.  Rounding to 24 bits of mantissa is not modelled; comparisons follow
  IEEE 754 (every ordered comparison with NaN is false).
\<close>

named_theorems model_simps "evaluation rules of the operations of the model"

type_synonym u32 = "32 word"
type_synonym u64 = "64 word"
type_synonym msec = nat

datatype flt = Fin real | PInf | NInf | NaN

fun flt_finite :: "flt \<Rightarrow> bool" where
  "flt_finite (Fin _) = True"
| "flt_finite _ = False"

fun flt_val :: "flt \<Rightarrow> real" where
  "flt_val (Fin r) = r"
| "flt_val _ = 0"

text \<open>IEEE \<open>a < b\<close> on floats: NaN is unordered, \<open>-inf < finite < +inf\<close>.\<close>

fun flt_less :: "flt \<Rightarrow> flt \<Rightarrow> bool" where
  "flt_less (Fin a) (Fin b) = (a < b)"
| "flt_less NInf (Fin _) = True"
| "flt_less NInf PInf = True"
| "flt_less (Fin _) PInf = True"
| "flt_less _ _ = False"

fun flt_neg :: "flt \<Rightarrow> flt" where
  "flt_neg (Fin r) = Fin (- r)"
| "flt_neg PInf = NInf"
| "flt_neg NInf = PInf"
| "flt_neg NaN = NaN"

text \<open>
  Early return: \<open>Inl r\<close> is a value already returned by the function, \<open>Inr s\<close> a
  state with which the function body continues.
\<close>

definition sum_bind :: "'r + 's \<Rightarrow> ('s \<Rightarrow> 'r + 't) \<Rightarrow> 'r + 't" where
  "sum_bind m f = (case m of Inl r \<Rightarrow> Inl r | Inr s \<Rightarrow> f s)"

lemma sum_bind_Inl [simp]: "sum_bind (Inl r) f = Inl r"
  by (simp add: sum_bind_def)

lemma sum_bind_Inr [simp]: "sum_bind (Inr s) f = f s"
  by (simp add: sum_bind_def)

lemma sum_bind_eq_Inr [simp]:
  "sum_bind m f = Inr t \<longleftrightarrow> (\<exists>s. m = Inr s \<and> f s = Inr t)"
  by (cases m) auto

lemma sum_bind_eq_Inl:
  "sum_bind m f = Inl r \<longleftrightarrow> m = Inl r \<or> (\<exists>s. m = Inr s \<and> f s = Inl r)"
  by (cases m) auto

lemma flt_less_NaN [simp]: "\<not> flt_less NaN x" "\<not> flt_less x NaN"
  by (cases x; simp)+

lemma flt_less_NInf [simp]: "\<not> flt_less x NInf"
  by (cases x) auto

lemma flt_less_PInf [simp]: "flt_less x PInf \<longleftrightarrow> x = NInf \<or> flt_finite x"
  by (cases x) auto

lemma flt_neg_neg [simp]: "flt_neg (flt_neg x) = x"
  by (cases x) auto

lemma flt_finite_neg [simp]: "flt_finite (flt_neg x) = flt_finite x"
  by (cases x) auto

text \<open>Generic list facts used by the stream proofs.\<close>

lemma filter_concat_map_singleton:
  "concat (map (\<lambda>x. if P x then [x] else []) xs) = filter P xs"
  by (induction xs) auto

lemma subseq_append_single_right [intro]:
  "subseq xs ys \<Longrightarrow> subseq xs (ys @ [y])"
  by (metis list_emb_append_mono subseq_order.order_refl append_Nil2 list_emb_Nil)

text \<open>\<open>static_cast<uint32_t>\<close> of an \<open>unsigned long\<close> keeps the low 32 bits.\<close>

lemma ucast_u64_u32_int: "(ucast (word_of_int k :: u64) :: u32) = word_of_int k"
  by (rule ucast_down_wi) (simp add: is_down)

lemma ucast_u64_u32_nat [simp]: "(ucast (word_of_nat n :: u64) :: u32) = word_of_nat n"
  using ucast_u64_u32_int [of "int n"] by simp

lemma ucast_u64_u32_neg_nat [simp]: "(ucast (- word_of_nat n :: u64) :: u32) = - word_of_nat n"
  using ucast_u64_u32_int [of "- int n"] by simp

text \<open>\<open>flt_less\<close> is a strict total order away from NaN.\<close>

lemma flt_less_irrefl [simp]: "\<not> flt_less x x"
  by (cases x) auto

lemma flt_less_trans: "flt_less x y \<Longrightarrow> flt_less y z \<Longrightarrow> flt_less x z"
  by (cases x; cases y; cases z) auto

lemma flt_less_total: "x \<noteq> NaN \<Longrightarrow> y \<noteq> NaN \<Longrightarrow> flt_less x y \<or> x = y \<or> flt_less y x"
  by (cases x; cases y) auto


lemma unat_u32_bound: "unat (w :: u32) < 2 ^ 32"
  using unsigned_less [of w] by simp

lemma u32_u64_roundtrip: "ucast (ucast (w :: u32) :: u64) = w"
  by (simp add: ucast_up_ucast_id is_up)

end
