(* ===== verification/LibC.thy ===== *)
theory LibC
  imports Prelude
begin

text \<open>
  The two conversions \<open>parseInput\<close> (src/src/main/main.cc) calls on option values:
  \<open>std::stoul\<close> (for \<open>-d\<close> and \<open>-g\<close>) and \<open>std::stof\<close> (for \<open>-r\<close>).  libstdc++
  implements both by \<open>__gnu_cxx::__stoa\<close> over glibc's \<open>strtoul\<close>/\<open>strtof\<close>:
  \<open>std::invalid_argument\<close> when no character was converted, \<open>std::out_of_range\<close>
  when \<open>errno\<close> is \<open>ERANGE\<close>; trailing characters are ignored.  Both exceptions are
  values of \<open>conv_error\<close>.  \<open>unsigned long\<close> is 64 bits wide (LP64).

  \<open>strtoul\<close> (base 10): leading white space, an optional sign, the longest run of
  decimal digits; a magnitude above \<open>ULONG_MAX\<close> is \<open>ERANGE\<close>; a minus sign negates
  the value in unsigned arithmetic (\<open>"-1"\<close> is \<open>ULONG_MAX\<close>).

  \<open>strtof\<close>: leading white space, an optional sign, then \<open>inf\<close>/\<open>infinity\<close> or
  \<open>nan\<close> (any case), a hexadecimal float \<open>0x\<dots>[p\<dots>]\<close>, or a decimal float
  \<open>digits[.digits][e\<dots>]\<close>.  The value is kept exact (no rounding to 24 bits);
  \<open>ERANGE\<close> is raised when the value rounds to infinity (magnitude at least
  \<open>2^128 - 2^103\<close>) and when a non-zero value below \<open>FLT_MIN = 2^-126\<close> is not a
  multiple of the least subnormal \<open>2^-149\<close> (inexact underflow).
\<close>

datatype conv_error = InvalidArgument | OutOfRange

definition is_space :: "char \<Rightarrow> bool" where
  "is_space c \<longleftrightarrow> c \<in> set [CHR '' '', CHR 0x09, CHR 0x0A, CHR 0x0B, CHR 0x0C, CHR 0x0D]"

definition is_digit :: "char \<Rightarrow> bool" where
  "is_digit c \<longleftrightarrow> 48 \<le> (of_char c :: nat) \<and> (of_char c :: nat) \<le> 57"

definition digit_value :: "char \<Rightarrow> nat" where
  "digit_value c = of_char c - 48"

definition is_hex_digit :: "char \<Rightarrow> bool" where
  "is_hex_digit c \<longleftrightarrow> is_digit c \<or>
     (97 \<le> (of_char c :: nat) \<and> (of_char c :: nat) \<le> 102) \<or>
     (65 \<le> (of_char c :: nat) \<and> (of_char c :: nat) \<le> 70)"

definition hex_digit_value :: "char \<Rightarrow> nat" where
  "hex_digit_value c =
     (if is_digit c then digit_value c
      else if 97 \<le> (of_char c :: nat) then of_char c - 87 else of_char c - 55)"

definition decimal_value :: "string \<Rightarrow> nat" where
  "decimal_value ds = foldl (\<lambda>n c. 10 * n + digit_value c) 0 ds"

definition hex_value :: "string \<Rightarrow> nat" where
  "hex_value ds = foldl (\<lambda>n c. 16 * n + hex_digit_value c) 0 ds"

fun split_sign :: "string \<Rightarrow> bool \<times> string" where
  "split_sign [] = (False, [])"
| "split_sign (c # cs) =
     (if c = CHR ''-'' then (True, cs) else if c = CHR ''+'' then (False, cs) else (False, c # cs))"

definition ULONG_MAX :: nat where
  "ULONG_MAX = 2 ^ 64 - 1"

definition stoul :: "string \<Rightarrow> conv_error + u64" where
  "stoul s =
     (let (neg, r) = split_sign (dropWhile is_space s);
          ds = takeWhile is_digit r
      in if ds = [] then Inl InvalidArgument
         else if ULONG_MAX < decimal_value ds then Inl OutOfRange
         else if neg then Inr (- word_of_nat (decimal_value ds))
         else Inr (word_of_nat (decimal_value ds)))"

text \<open>Case-insensitive match of a lower-case keyword against a prefix of the input.\<close>

definition ci_char_eq :: "char \<Rightarrow> char \<Rightarrow> bool" where
  "ci_char_eq k c \<longleftrightarrow> c = k \<or>
     (97 \<le> (of_char k :: nat) \<and> (of_char k :: nat) \<le> 122 \<and> (of_char c :: nat) + 32 = of_char k)"

definition starts_with_ci :: "string \<Rightarrow> string \<Rightarrow> bool" where
  "starts_with_ci w s \<longleftrightarrow> length w \<le> length s \<and> list_all2 ci_char_eq w (take (length w) s)"

definition scale_pow :: "nat \<Rightarrow> nat \<Rightarrow> int \<Rightarrow> real" where
  "scale_pow b m e =
     (if 0 \<le> e then of_nat m * of_nat b ^ nat e else of_nat m / of_nat b ^ nat (- e))"

text \<open>An exponent part \<open>[marker][sign]digits\<close>; it is consumed only when a digit follows.\<close>

definition exponent_part :: "string \<Rightarrow> string \<Rightarrow> int" where
  "exponent_part marks r =
     (case r of
        [] \<Rightarrow> 0
      | c # t \<Rightarrow>
          (if c \<in> set marks then
             (let (neg, t') = split_sign t; ds = takeWhile is_digit t'
              in if ds = [] then 0
                 else if neg then - int (decimal_value ds) else int (decimal_value ds))
           else 0))"

definition decimal_float :: "string \<Rightarrow> real option" where
  "decimal_float r =
     (let ip = takeWhile is_digit r; r1 = dropWhile is_digit r;
          (fp, r2) = (case r1 of
                        [] \<Rightarrow> ([], [])
                      | c # t \<Rightarrow> (if c = CHR ''.'' then (takeWhile is_digit t, dropWhile is_digit t)
                                  else ([], r1)))
      in if ip = [] \<and> fp = [] then None
         else Some (scale_pow 10 (decimal_value (ip @ fp)) (exponent_part ''eE'' r2 - int (length fp))))"

definition hex_float :: "string \<Rightarrow> real option" where
  "hex_float r =
     (case r of
        z # x # t \<Rightarrow>
          (if z = CHR ''0'' \<and> (x = CHR ''x'' \<or> x = CHR ''X'') then
             (let ip = takeWhile is_hex_digit t; r1 = dropWhile is_hex_digit t;
                  (fp, r2) = (case r1 of
                                [] \<Rightarrow> ([], [])
                              | c # u \<Rightarrow> (if c = CHR ''.''
                                          then (takeWhile is_hex_digit u, dropWhile is_hex_digit u)
                                          else ([], r1)))
              in if ip = [] \<and> fp = [] then None
                 else Some (scale_pow 2 (hex_value (ip @ fp))
                              (exponent_part ''pP'' r2 - 4 * int (length fp))))
           else None)
      | _ \<Rightarrow> None)"

definition float_body :: "string \<Rightarrow> flt option" where
  "float_body r =
     (if starts_with_ci ''inf'' r then Some PInf
      else if starts_with_ci ''nan'' r then Some NaN
      else (case hex_float r of
              Some v \<Rightarrow> Some (Fin v)
            | None \<Rightarrow> map_option Fin (decimal_float r)))"

definition stof_range_error :: "real \<Rightarrow> bool" where
  "stof_range_error v \<longleftrightarrow>
     2 ^ 128 - 2 ^ 103 \<le> \<bar>v\<bar> \<or>
     (0 < \<bar>v\<bar> \<and> \<bar>v\<bar> < 1 / 2 ^ 126 \<and> of_int \<lfloor>\<bar>v\<bar> * 2 ^ 149\<rfloor> \<noteq> \<bar>v\<bar> * 2 ^ 149)"

definition stof :: "string \<Rightarrow> conv_error + flt" where
  "stof s =
     (let (neg, r) = split_sign (dropWhile is_space s)
      in case float_body r of
           None \<Rightarrow> Inl InvalidArgument
         | Some f \<Rightarrow>
             (if (case f of Fin v \<Rightarrow> stof_range_error v | _ \<Rightarrow> False) then Inl OutOfRange
              else if neg then Inr (flt_neg f) else Inr f))"

text \<open>Decimal printing of a natural number (\<open>std::to_string\<close>, \<open>operator<<\<close>).\<close>

fun decimal_string :: "nat \<Rightarrow> string" where
  "decimal_string n =
     (if n < 10 then [char_of (48 + n)] else decimal_string (n div 10) @ [char_of (48 + n mod 10)])"

text \<open>
  Decimal printing and \<open>std::stoul\<close> are inverse on \<open>[0, ULONG_MAX]\<close>; above it
  \<open>stoul\<close> raises \<open>out_of_range\<close>.  A leading minus sign negates modulo \<open>2^64\<close>.
\<close>

declare decimal_string.simps [simp del]

lemma digit_char_of [simp]:
  assumes "k < 10"
  shows "is_digit (char_of (48 + k))" "digit_value (char_of (48 + k)) = k"
  using assms by (auto simp: is_digit_def digit_value_def)

lemma char_of_eq_iff: "char_of n = c \<longleftrightarrow> n mod 256 = (of_char c :: nat)"
  by (metis char_of_char of_char_of)

lemma is_space_code: "is_space c \<Longrightarrow> (of_char c :: nat) \<le> 32"
  by (auto simp: is_space_def)

lemma is_digit_not_sign [dest]:
  "is_digit c \<Longrightarrow> \<not> is_space c \<and> c \<noteq> CHR ''-'' \<and> c \<noteq> CHR ''+''"
  using is_space_code [of c] by (auto simp: is_digit_def)

lemma decimal_value_snoc [simp]: "decimal_value (xs @ [c]) = 10 * decimal_value xs + digit_value c"
  by (simp add: decimal_value_def)

lemma decimal_string_digits: "c \<in> set (decimal_string n) \<Longrightarrow> is_digit c"
proof (induction n rule: decimal_string.induct)
  case (1 n)
  then show ?case
    by (cases "n < 10") (auto simp: decimal_string.simps [of n])
qed

lemma decimal_string_value: "decimal_value (decimal_string n) = n"
proof (induction n rule: decimal_string.induct)
  case (1 n)
  then show ?case
    by (cases "n < 10") (simp_all add: decimal_string.simps [of n] decimal_value_def)
qed

lemma decimal_string_ne: "decimal_string n \<noteq> []"
  by (simp add: decimal_string.simps [of n])

lemma stoul_digits:
  assumes "ds \<noteq> []" "\<forall>c\<in>set ds. is_digit c"
  shows "stoul ds = (if ULONG_MAX < decimal_value ds then Inl OutOfRange else Inr (word_of_nat (decimal_value ds)))"
    "stoul (CHR ''-'' # ds) = (if ULONG_MAX < decimal_value ds then Inl OutOfRange else Inr (- word_of_nat (decimal_value ds)))"
proof -
  obtain c cs where ds: "ds = c # cs" and "is_digit c" using assms by (cases ds) auto
  then have "\<not> is_space c" "c \<noteq> CHR ''-''" "c \<noteq> CHR ''+''" by auto
  moreover have "takeWhile is_digit ds = ds" using assms(2) by simp
  ultimately show "stoul ds = (if ULONG_MAX < decimal_value ds then Inl OutOfRange else Inr (word_of_nat (decimal_value ds)))"
      "stoul (CHR ''-'' # ds) = (if ULONG_MAX < decimal_value ds then Inl OutOfRange else Inr (- word_of_nat (decimal_value ds)))"
    using ds assms(1) by (simp_all add: stoul_def is_space_def)
qed

lemma stoul_decimal_string:
  "stoul (decimal_string n) = (if ULONG_MAX < n then Inl OutOfRange else Inr (word_of_nat n))"
  "stoul (CHR ''-'' # decimal_string n) = (if ULONG_MAX < n then Inl OutOfRange else Inr (- word_of_nat n))"
  using stoul_digits [of "decimal_string n", unfolded decimal_string_value]
    decimal_string_digits [of _ n] decimal_string_ne [of n]
  by auto

lemma stoul_decimal_suffix:
  "takeWhile is_digit rest = [] \<Longrightarrow> stoul (decimal_string n @ rest) = stoul (decimal_string n)"
proof -
  assume r: "takeWhile is_digit rest = []"
  obtain c cs where ds: "decimal_string n = c # cs"
    using decimal_string_ne [of n] by (cases "decimal_string n") auto
  then have "is_digit c" using decimal_string_digits [of c n] by simp
  then have "\<not> is_space c" "c \<noteq> CHR ''-''" "c \<noteq> CHR ''+''" by auto
  moreover have "takeWhile is_digit (decimal_string n @ rest) = decimal_string n"
    using r decimal_string_digits [of _ n] by (simp add: takeWhile_append2)
  moreover have "takeWhile is_digit (decimal_string n) = decimal_string n"
    using decimal_string_digits [of _ n] by simp
  ultimately show ?thesis using ds by (simp add: stoul_def)
qed


lemma decimal_string_cons: "\<exists>d ds. decimal_string n = d # ds \<and> is_digit d"
  using decimal_string_ne [of n] decimal_string_digits [of _ n]
  by (cases "decimal_string n") auto

lemma stof_decimal_string:
  "stof (decimal_string n) = (if stof_range_error (real n) then Inl OutOfRange else Inr (Fin (real n)))"
proof -
  obtain d ds where e: "decimal_string n = d # ds" and d: "is_digit d"
    using decimal_string_cons by blast
  have all: "\<forall>c \<in> set (d # ds). is_digit c" using decimal_string_digits [of _ n] e by simp
  have sp: "\<not> is_space d" "d \<noteq> CHR ''-''" "d \<noteq> CHR ''+''" using d by auto
  have ci: "\<not> ci_char_eq CHR ''i'' d" "\<not> ci_char_eq CHR ''n'' d"
    using d by (auto simp: ci_char_eq_def is_digit_def)
  have hx: "hex_float (d # ds) = None"
    using d all by (cases ds) (auto simp: hex_float_def is_digit_def)
  have "takeWhile is_digit (d # ds) = d # ds" "dropWhile is_digit (d # ds) = []"
    using all by (simp_all add: takeWhile_eq_all_conv dropWhile_eq_Nil_conv)
  then have "decimal_float (d # ds) = Some (real n)"
    using decimal_string_value [of n] e
    by (simp add: decimal_float_def scale_pow_def exponent_part_def Let_def)
  then show ?thesis using e sp ci hx
    by (simp add: stof_def float_body_def starts_with_ci_def)
qed

lemma stof_range_nat_iff: "stof_range_error (real n) \<longleftrightarrow> (2::real) ^ 128 - 2 ^ 103 \<le> real n"
proof -
  have "n = 0 \<or> 1 \<le> real n" by auto
  moreover have "(1::real) / 2 ^ 126 < 1" by simp
  ultimately show ?thesis by (auto simp: stof_range_error_def)
qed

lemma stof_range_nat: "n < 2 ^ 127 \<Longrightarrow> \<not> stof_range_error (real n)"
proof -
  assume "n < 2 ^ 127"
  then have "real n < 2 ^ 127" by (metis of_nat_less_iff of_nat_numeral of_nat_power)
  then show ?thesis by (simp add: stof_range_nat_iff)
qed

lemmas conv_eval = stoul_def is_space_def is_digit_def decimal_value_def digit_value_def ULONG_MAX_def
  stof_def float_body_def starts_with_ci_def ci_char_eq_def hex_float_def decimal_float_def scale_pow_def
  exponent_part_def stof_range_error_def is_hex_digit_def hex_value_def hex_digit_value_def

end
