(* ===== verification/InputParser.thy ===== *)
theory InputParser
  imports Prelude
begin

text \<open>
  The command-line helper \<open>InputParser\<close> (app/InputParser.hh, not part of the staged
  sources) as \<open>parseInput\<close> in src/src/main/main.cc uses it: the constructor keeps
  \<open>argv[1..argc-1]\<close> as a vector of tokens; \<open>optionExists\<close> searches the tokens
  with \<open>std::find\<close>; \<open>getOption\<close> returns a \<^emph>\<open>reference\<close> to the token that
  follows the first occurrence of the option, or to a function-local static empty
  string.  The reference is modelled as a \<open>str_ref\<close>: which string of which storage it
  designates.  This matters for the \<open>-b\<close> path of \<open>parseInput\<close>, which keeps a
  pointer into that storage (theory CommandLine).
\<close>

record InputParser =
  tokens :: "string list"

definition InputParser_new :: "string list \<Rightarrow> InputParser" where
  "InputParser_new argv = \<lparr>tokens = drop 1 argv\<rparr>"

text \<open>\<open>std::find\<close>: the index of the first occurrence, the length when there is none.\<close>

fun find_pos :: "'a \<Rightarrow> 'a list \<Rightarrow> nat" where
  "find_pos x [] = 0"
| "find_pos x (y # ys) = (if y = x then 0 else Suc (find_pos x ys))"

definition optionExists :: "InputParser \<Rightarrow> string \<Rightarrow> bool" where
  "optionExists p opt \<longleftrightarrow> find_pos opt (tokens p) \<noteq> length (tokens p)"

datatype str_ref = TokenRef nat | StaticEmpty

definition getOption :: "InputParser \<Rightarrow> string \<Rightarrow> str_ref" where
  "getOption p opt =
     (let i = find_pos opt (tokens p)
      in if i \<noteq> length (tokens p) \<and> Suc i \<noteq> length (tokens p) then TokenRef (Suc i) else StaticEmpty)"

text \<open>Reading a referenced string while the parser's token vector is alive.\<close>

fun str_val :: "string list \<Rightarrow> str_ref \<Rightarrow> string" where
  "str_val toks (TokenRef i) = toks ! i"
| "str_val toks StaticEmpty = []"

lemma find_pos_le [simp]: "find_pos x xs \<le> length xs"
  by (induction xs) auto

lemma find_pos_less_iff [simp]: "find_pos x xs < length xs \<longleftrightarrow> x \<in> set xs"
  by (induction xs) auto

lemma find_pos_eq_length_iff [simp]: "find_pos x xs = length xs \<longleftrightarrow> x \<notin> set xs"
  by (induction xs) auto

lemma find_pos_nth: "x \<in> set xs \<Longrightarrow> xs ! find_pos x xs = x"
  by (induction xs) auto

lemma find_pos_append_notin [simp]: "x \<notin> set xs \<Longrightarrow> find_pos x (xs @ ys) = length xs + find_pos x ys"
  by (induction xs) auto

lemma optionExists_iff [simp]: "optionExists p opt \<longleftrightarrow> opt \<in> set (tokens p)"
  by (simp add: optionExists_def)

lemma tokens_new [simp]: "tokens (InputParser_new argv) = drop 1 argv"
  by (simp add: InputParser_new_def)

lemma getOption_value:
  "str_val (tokens p) (getOption p opt) =
     (if opt \<in> set (tokens p) \<and> Suc (find_pos opt (tokens p)) < length (tokens p)
      then tokens p ! Suc (find_pos opt (tokens p)) else [])"
proof (cases "opt \<in> set (tokens p)")
  case True
  then have "find_pos opt (tokens p) < length (tokens p)" by simp
  then have "Suc (find_pos opt (tokens p)) \<noteq> length (tokens p) \<longleftrightarrow>
      Suc (find_pos opt (tokens p)) < length (tokens p)" by linarith
  with True show ?thesis by (simp add: getOption_def Let_def)
next
  case False
  then show ?thesis by (simp add: getOption_def)
qed

end
