(* ===== verification/CommandLine.thy ===== *)
theory CommandLine
  imports LibC InputParser
begin

text \<open>
  The program entry point, src/src/main/main.cc, as the code has it: the
  \<open>ParsedInput\<close> struct and its constructor, one definition per block of
  \<open>parseInput\<close> (option parsing with early returns), \<open>usage\<close>, \<open>help\<close>,
  \<open>missusage\<close> and \<open>main\<close>.  Console output is the list of lines written to
  \<open>std::cout\<close> (each \<open>std::endl\<close> ends a line); \<open>printDebug\<close> writes only in
  debug builds and is not modelled.  Fields the constructor leaves uninitialised
  (\<open>exit_code\<close>, \<open>is_lidar\<close>, \<open>broadcast_code\<close>) hold \<open>None\<close>/\<open>PtrUninit\<close>
  until a statement assigns them.  \<open>TimerMode\<close> and \<open>kBroadcastCodeSize\<close> come from
  headers that are not staged (the App header and the Livox SDK's livox_def.h).  The
  specification of the command line is in theory CliSpec, the properties in
  CliProperties.
\<close>

datatype TimerMode = kUntimed | kTimedCharacterization | kTimedAnomalyDetection | kTimed

definition kBroadcastCodeSize :: nat where
  "kBroadcastCodeSize = 16"

definition DEFAULT_FRAME_TIME :: u32 where
  "DEFAULT_FRAME_TIME = 100"

definition DEFAULT_BACKGROUND_TIME :: u32 where
  "DEFAULT_BACKGROUND_TIME = 500"

definition DEFAULT_MIN_RELECTIVITY :: flt where
  "DEFAULT_MIN_RELECTIVITY = Fin 0"

abbreviation EXIT_SUCCESS :: int where
  "EXIT_SUCCESS \<equiv> 0"

abbreviation EXIT_FAILURE :: int where
  "EXIT_FAILURE \<equiv> 1"

text \<open>A \<open>char *\<close>: uninitialised, or pointing at the characters of a referenced string.\<close>

datatype char_ptr = PtrUninit | PtrTo str_ref

record ParsedInput =
  is_ok :: bool
  exit_code :: "int option"
  is_lidar :: "bool option"
  filename :: string
  broadcast_code :: char_ptr
  time_mode :: TimerMode
  frame_time :: u32
  background_time :: u32
  min_reflectivity :: flt

definition ParsedInput_new :: ParsedInput where
  "ParsedInput_new =
     \<lparr>is_ok = False, exit_code = None, is_lidar = None, filename = [],
      broadcast_code = PtrUninit, time_mode = kUntimed, frame_time = DEFAULT_FRAME_TIME,
      background_time = DEFAULT_BACKGROUND_TIME, min_reflectivity = DEFAULT_MIN_RELECTIVITY\<rparr>"

type_synonym console = "string list"

text \<open>A step of \<open>parseInput\<close>: \<open>Inl\<close> is the returned value with the output, \<open>Inr\<close> goes on.\<close>

type_synonym step_result = "(ParsedInput \<times> console) + ParsedInput"

abbreviation TAB :: string where
  "TAB \<equiv> [CHR 0x09]"

definition usage :: console where
  "usage =
     [[],
      ''Usage:'',
      '' anomaly_detection <-b broadcast_code> [-d frame_time] [-t time_mode] [-g background_time] [-r min_reflectivity]'',
      '' anomaly_detection <-f filename> [-d frame_time] [-t time_mode] [-g background_time] [-r min_reflectivity]'',
      '' anomaly_detection <-h | --help>'',
      []]"

definition help_msg :: console where
  "help_msg = usage @
     [TAB @ '' -b                Broadcast code of the lidar sensor ('' @ decimal_string kBroadcastCodeSize @ '' digits)'',
      TAB @ '' -f                File with the 3D points to get the data from'',
      TAB @ '' -d                Amount of miliseconds to use as frame duration time (default is 100)'',
      TAB @ '' -t                Type of chronometer to set up and measure time from (default is notime)'',
      TAB @ ''                       notime - No chrono set'',
      TAB @ ''                       char   - Characterizator chrono set'',
      TAB @ ''                       anom   - Anomaly detector chrono set'',
      TAB @ ''                       all    - All chronos set'',
      TAB @ '' -g                Time during which scanned points will be part of the background'',
      TAB @ '' -r                Minimum reflectivity poinst may have not to be discarded'',
      TAB @ '' -h,--help         Print the program help text'',
      []]"

definition missusage :: "ParsedInput \<Rightarrow> ParsedInput \<times> console" where
  "missusage pin = (pin\<lparr>is_ok := False, exit_code := Some EXIT_FAILURE\<rparr>, usage)"

definition parse_source :: "InputParser \<Rightarrow> ParsedInput \<Rightarrow> step_result" where
  "parse_source parser pin =
     (if optionExists parser ''-h'' \<or> optionExists parser ''--help'' then
        Inl (pin\<lparr>exit_code := Some EXIT_SUCCESS\<rparr>, help_msg)
      else if optionExists parser ''-b'' then
        (let r = getOption parser ''-b''; option = str_val (tokens parser) r
         in if option = [] \<or> length option \<noteq> kBroadcastCodeSize then Inl (missusage pin)
            else Inr (pin\<lparr>is_ok := True, is_lidar := Some True, broadcast_code := PtrTo r\<rparr>))
      else if optionExists parser ''-f'' then
        (let option = str_val (tokens parser) (getOption parser ''-f'')
         in if option = [] then Inl (missusage pin)
            else Inr (pin\<lparr>is_ok := True, is_lidar := Some False, filename := option\<rparr>))
      else Inl (pin\<lparr>exit_code := Some EXIT_SUCCESS\<rparr>, usage))"

definition parse_frame_time :: "InputParser \<Rightarrow> ParsedInput \<Rightarrow> step_result" where
  "parse_frame_time parser pin =
     (if optionExists parser ''-d'' then
        (let option = str_val (tokens parser) (getOption parser ''-d'')
         in if option = [] then Inl (missusage pin)
            else (case stoul option of
                    Inl _ \<Rightarrow> Inl (missusage pin)
                  | Inr v \<Rightarrow> Inr (pin\<lparr>frame_time := ucast v\<rparr>)))
      else Inr pin)"

definition parse_time_mode :: "InputParser \<Rightarrow> ParsedInput \<Rightarrow> step_result" where
  "parse_time_mode parser pin =
     (if optionExists parser ''-t'' then
        (let option = str_val (tokens parser) (getOption parser ''-t'')
         in if option = [] then Inl (missusage pin)
            else if option = ''notime'' then Inr pin
            else if option = ''char'' then Inr (pin\<lparr>time_mode := kTimedCharacterization\<rparr>)
            else if option = ''anom'' then Inr (pin\<lparr>time_mode := kTimedAnomalyDetection\<rparr>)
            else if option = ''all'' then Inr (pin\<lparr>time_mode := kTimed\<rparr>)
            else Inl (missusage pin))
      else Inr pin)"

definition parse_background_time :: "InputParser \<Rightarrow> ParsedInput \<Rightarrow> step_result" where
  "parse_background_time parser pin =
     (if optionExists parser ''-g'' then
        (let option = str_val (tokens parser) (getOption parser ''-g'')
         in if option = [] then Inl (missusage pin)
            else (case stoul option of
                    Inl _ \<Rightarrow> Inl (missusage pin)
                  | Inr v \<Rightarrow> Inr (pin\<lparr>background_time := ucast v\<rparr>)))
      else Inr pin)"

definition parse_min_reflectivity :: "InputParser \<Rightarrow> ParsedInput \<Rightarrow> step_result" where
  "parse_min_reflectivity parser pin =
     (if optionExists parser ''-r'' then
        (let option = str_val (tokens parser) (getOption parser ''-r'')
         in if option = [] then Inl (missusage pin)
            else (case stof option of
                    Inl _ \<Rightarrow> Inl (missusage pin)
                  | Inr v \<Rightarrow> Inr (pin\<lparr>min_reflectivity := v\<rparr>)))
      else Inr pin)"

definition parseInput :: "string list \<Rightarrow> ParsedInput \<times> console" where
  "parseInput argv =
     (let parser = InputParser_new argv;
          pin = ParsedInput_new\<lparr>frame_time := DEFAULT_FRAME_TIME, time_mode := kUntimed\<rparr>
      in case sum_bind (sum_bind (sum_bind (sum_bind
                (parse_source parser pin)
                (parse_frame_time parser))
                (parse_time_mode parser))
                (parse_background_time parser))
                (parse_min_reflectivity parser) of
           Inl res \<Rightarrow> res
         | Inr pi' \<Rightarrow> (pi', []))"

text \<open>
  Reading through a \<open>char *\<close>.  \<open>store\<close> is the token vector the pointer may point
  into while its owner is alive, \<open>None\<close> once the owner has been destroyed.
\<close>

datatype mem_error = DanglingPointer | UninitialisedRead

definition deref :: "string list option \<Rightarrow> char_ptr \<Rightarrow> mem_error + string" where
  "deref store p =
     (case p of
        PtrUninit \<Rightarrow> Inl UninitialisedRead
      | PtrTo StaticEmpty \<Rightarrow> Inr []
      | PtrTo (TokenRef i) \<Rightarrow> (case store of None \<Rightarrow> Inl DanglingPointer | Some toks \<Rightarrow> Inr (toks ! i)))"

text \<open>The arguments \<open>main\<close> passes to the \<open>App\<close> constructor, and one run of \<open>main\<close>.\<close>

record AppArgs =
  app_source :: "mem_error + string"
  app_is_lidar :: bool
  app_time_mode :: TimerMode
  app_frame_time :: u32
  app_background_time :: u32
  app_min_reflectivity :: flt

record MainRun =
  main_console :: console
  main_app :: "AppArgs option"
  main_exit :: int

text \<open>
  \<open>main\<close> reads \<open>pi.broadcast_code\<close> after \<open>parseInput\<close> has returned: the
  \<open>InputParser\<close> local to \<open>parseInput\<close>, whose tokens the pointer designates, no
  longer exists, so the store passed to \<open>deref\<close> is \<open>None\<close>.
\<close>

definition main :: "string list \<Rightarrow> MainRun" where
  "main argv =
     (let (pin, out) = parseInput argv
      in \<lparr>main_console = out,
          main_app =
            (if is_ok pin then
               Some \<lparr>app_source =
                       (case is_lidar pin of
                          None \<Rightarrow> Inl UninitialisedRead
                        | Some True \<Rightarrow> deref None (broadcast_code pin)
                        | Some False \<Rightarrow> Inr (filename pin)),
                     app_is_lidar = (is_lidar pin = Some True),
                     app_time_mode = time_mode pin, app_frame_time = frame_time pin,
                     app_background_time = background_time pin,
                     app_min_reflectivity = min_reflectivity pin\<rparr>
             else None),
          main_exit = EXIT_SUCCESS\<rparr>)"

lemma deref_live [simp]: "deref (Some toks) (PtrTo r) = Inr (str_val toks r)"
  by (cases r) (simp_all add: deref_def)

lemmas cli_eval = parseInput_def parse_source_def parse_frame_time_def parse_time_mode_def
  parse_background_time_def parse_min_reflectivity_def missusage_def ParsedInput_new_def getOption_def
  kBroadcastCodeSize_def DEFAULT_FRAME_TIME_def DEFAULT_BACKGROUND_TIME_def DEFAULT_MIN_RELECTIVITY_def

end
