(* ===== verification/CliSpec.thy ===== *)
theory CliSpec
  imports CommandLine "HOL-Library.Monad_Syntax"
begin

text \<open>
  Abstract specification of the command line of src/src/main/main.cc and the proof
  that \<open>parseInput\<close> and \<open>main\<close> implement it: \<open>cli_spec\<close> says which command
  lines are accepted and what configuration they denote, option by option and
  independently of the order in which \<open>parseInput\<close> examines the options;
  \<open>cli_args\<close> prints a configuration back as a command line.  The lemmas restate
  each step of \<open>parseInput\<close> in terms of the specification of its option and derive
  the case form \<open>parseInput_cases\<close> that the properties of CliProperties use.
\<close>

text \<open>
  Abstract specification of the command line: which command lines are accepted and
  what configuration they denote, stated option by option and independently of the
  order in which \<open>parseInput\<close> examines the options.  \<open>arg_after args opt\<close> is
  the value of an option: the token after its first occurrence (empty when the option
  is the last token), \<open>None\<close> when the option is absent.
\<close>

record CliConfig =
  cfg_is_lidar :: bool
  cfg_source :: string
  cfg_time_mode :: TimerMode
  cfg_frame_time :: u32
  cfg_background_time :: u32
  cfg_min_reflectivity :: flt

definition arg_after :: "string list \<Rightarrow> string \<Rightarrow> string option" where
  "arg_after args opt =
     (if opt \<in> set args
      then Some (if Suc (find_pos opt args) < length args then args ! Suc (find_pos opt args) else [])
      else None)"

definition source_spec :: "string list \<Rightarrow> (bool \<times> string) option" where
  "source_spec args =
     (case arg_after args ''-b'' of
        Some v \<Rightarrow> (if length v = kBroadcastCodeSize then Some (True, v) else None)
      | None \<Rightarrow> (case arg_after args ''-f'' of
                  Some v \<Rightarrow> (if v = [] then None else Some (False, v))
                | None \<Rightarrow> None))"

definition duration_spec :: "string list \<Rightarrow> string \<Rightarrow> u32 \<Rightarrow> u32 option" where
  "duration_spec args opt dflt =
     (case arg_after args opt of
        None \<Rightarrow> Some dflt
      | Some v \<Rightarrow> (case stoul v of Inl _ \<Rightarrow> None | Inr n \<Rightarrow> Some (ucast n)))"

definition timer_mode_of :: "string \<Rightarrow> TimerMode option" where
  "timer_mode_of s =
     (if s = ''notime'' then Some kUntimed
      else if s = ''char'' then Some kTimedCharacterization
      else if s = ''anom'' then Some kTimedAnomalyDetection
      else if s = ''all'' then Some kTimed
      else None)"

definition mode_spec :: "string list \<Rightarrow> TimerMode option" where
  "mode_spec args = (case arg_after args ''-t'' of None \<Rightarrow> Some kUntimed | Some v \<Rightarrow> timer_mode_of v)"

definition reflectivity_spec :: "string list \<Rightarrow> flt option" where
  "reflectivity_spec args =
     (case arg_after args ''-r'' of
        None \<Rightarrow> Some DEFAULT_MIN_RELECTIVITY
      | Some v \<Rightarrow> (case stof v of Inl _ \<Rightarrow> None | Inr f \<Rightarrow> Some f))"

definition help_requested :: "string list \<Rightarrow> bool" where
  "help_requested args \<longleftrightarrow> ''-h'' \<in> set args \<or> ''--help'' \<in> set args"

definition cli_spec :: "string list \<Rightarrow> CliConfig option" where
  "cli_spec argv =
     (let args = drop 1 argv
      in if help_requested args then None
         else do {
           src \<leftarrow> source_spec args;
           ft \<leftarrow> duration_spec args ''-d'' DEFAULT_FRAME_TIME;
           tm \<leftarrow> mode_spec args;
           bg \<leftarrow> duration_spec args ''-g'' DEFAULT_BACKGROUND_TIME;
           rf \<leftarrow> reflectivity_spec args;
           Some \<lparr>cfg_is_lidar = fst src, cfg_source = snd src, cfg_time_mode = tm,
                 cfg_frame_time = ft, cfg_background_time = bg, cfg_min_reflectivity = rf\<rparr>
         })"

text \<open>
  The configuration an accepted \<open>ParsedInput\<close> denotes, reading the broadcast code
  through its pointer while the parser's tokens \<open>toks\<close> are still alive.
\<close>

definition config_of :: "string list \<Rightarrow> ParsedInput \<Rightarrow> CliConfig" where
  "config_of toks pin =
     \<lparr>cfg_is_lidar = (is_lidar pin = Some True),
      cfg_source = (if is_lidar pin = Some True
                    then (case deref (Some toks) (broadcast_code pin) of Inl _ \<Rightarrow> [] | Inr s \<Rightarrow> s)
                    else filename pin),
      cfg_time_mode = time_mode pin, cfg_frame_time = frame_time pin,
      cfg_background_time = background_time pin, cfg_min_reflectivity = min_reflectivity pin\<rparr>"

text \<open>
  The \<open>App\<close> arguments a configuration of the specification leads \<open>main\<close> to pass:
  the broadcast code is read through the dangling pointer (see \<open>main\<close>).
\<close>

definition app_of :: "CliConfig \<Rightarrow> AppArgs" where
  "app_of c =
     \<lparr>app_source = (if cfg_is_lidar c then Inl DanglingPointer else Inr (cfg_source c)),
      app_is_lidar = cfg_is_lidar c, app_time_mode = cfg_time_mode c, app_frame_time = cfg_frame_time c,
      app_background_time = cfg_background_time c, app_min_reflectivity = cfg_min_reflectivity c\<rparr>"

text \<open>
  The inverse direction: printing a configuration as a command line, with the
  durations and an integral reflectivity floor in decimal.  \<open>cli_printable\<close> is the
  condition under which the printed line is unambiguous: the source is not empty,
  does not start with a dash (it would read as an option), a broadcast code has
  \<open>kBroadcastCodeSize\<close> characters, and the floor is a natural number below
  \<open>2^127\<close> (within the range of \<open>float\<close>).
\<close>

definition mode_name :: "TimerMode \<Rightarrow> string" where
  "mode_name m =
     (case m of kUntimed \<Rightarrow> ''notime'' | kTimedCharacterization \<Rightarrow> ''char''
      | kTimedAnomalyDetection \<Rightarrow> ''anom'' | kTimed \<Rightarrow> ''all'')"




text \<open>
  Each step of \<open>parseInput\<close> in terms of the specification of its option: the
  empty-value checks of the source coincide with the conversions' own rejection of
  the empty string.
\<close>

lemma arg_after_present:
  "opt \<in> set (tokens p) \<Longrightarrow> arg_after (tokens p) opt = Some (str_val (tokens p) (getOption p opt))"
  by (simp add: arg_after_def getOption_value)

lemma arg_after_absent [simp]: "opt \<notin> set args \<Longrightarrow> arg_after args opt = None"
  by (simp add: arg_after_def)

lemma conv_Nil [simp]:
  "stoul [] = Inl InvalidArgument" "stof [] = Inl InvalidArgument" "timer_mode_of [] = None"
  by (simp_all add: stoul_def stof_def float_body_def starts_with_ci_def hex_float_def
      decimal_float_def timer_mode_of_def)

lemma parse_frame_time_spec:
  "parse_frame_time parser pin =
     (case duration_spec (tokens parser) ''-d'' (frame_time pin) of
        None \<Rightarrow> Inl (missusage pin) | Some v \<Rightarrow> Inr (pin\<lparr>frame_time := v\<rparr>))"
  by (cases "''-d'' \<in> set (tokens parser)")
     (auto simp: parse_frame_time_def duration_spec_def arg_after_present Let_def split: sum.splits)

lemma parse_background_time_spec:
  "parse_background_time parser pin =
     (case duration_spec (tokens parser) ''-g'' (background_time pin) of
        None \<Rightarrow> Inl (missusage pin) | Some v \<Rightarrow> Inr (pin\<lparr>background_time := v\<rparr>))"
  by (cases "''-g'' \<in> set (tokens parser)")
     (auto simp: parse_background_time_def duration_spec_def arg_after_present Let_def split: sum.splits)

lemma parse_min_reflectivity_spec:
  "min_reflectivity pin = DEFAULT_MIN_RELECTIVITY \<Longrightarrow>
   parse_min_reflectivity parser pin =
     (case reflectivity_spec (tokens parser) of
        None \<Rightarrow> Inl (missusage pin) | Some v \<Rightarrow> Inr (pin\<lparr>min_reflectivity := v\<rparr>))"
  by (cases "''-r'' \<in> set (tokens parser)")
     (auto simp: parse_min_reflectivity_def reflectivity_spec_def arg_after_present Let_def split: sum.splits)

lemma parse_time_mode_spec:
  "time_mode pin = kUntimed \<Longrightarrow>
   parse_time_mode parser pin =
     (case mode_spec (tokens parser) of
        None \<Rightarrow> Inl (missusage pin) | Some m \<Rightarrow> Inr (pin\<lparr>time_mode := m\<rparr>))"
  by (cases "''-t'' \<in> set (tokens parser)")
     (auto simp: parse_time_mode_def mode_spec_def timer_mode_of_def arg_after_present Let_def)

lemma parse_source_spec:
  "parse_source parser pin =
     (if help_requested (tokens parser) then Inl (pin\<lparr>exit_code := Some EXIT_SUCCESS\<rparr>, help_msg)
      else case source_spec (tokens parser) of
        None \<Rightarrow> Inl (if ''-b'' \<notin> set (tokens parser) \<and> ''-f'' \<notin> set (tokens parser)
                    then (pin\<lparr>exit_code := Some EXIT_SUCCESS\<rparr>, usage) else missusage pin)
      | Some (lidar, v) \<Rightarrow>
          Inr (if lidar
               then pin\<lparr>is_ok := True, is_lidar := Some True, broadcast_code := PtrTo (getOption parser ''-b'')\<rparr>
               else pin\<lparr>is_ok := True, is_lidar := Some False, filename := v\<rparr>))"
  by (auto simp: parse_source_def source_spec_def help_requested_def arg_after_present Let_def
      kBroadcastCodeSize_def)

lemma source_spec_lidar:
  "source_spec args = Some (True, v) \<Longrightarrow> v = str_val args (getOption \<lparr>tokens = args\<rparr> ''-b'')"
proof -
  assume "source_spec args = Some (True, v)"
  then have "arg_after args ''-b'' = Some v"
    by (auto simp: source_spec_def split: option.splits if_splits)
  then show ?thesis
    using arg_after_present [of "''-b''" "\<lparr>tokens = args\<rparr>"]
    by (auto simp: arg_after_def split: if_splits)
qed

lemmas parse_steps = parse_source_spec parse_frame_time_spec parse_time_mode_spec
  parse_background_time_spec parse_min_reflectivity_spec

text \<open>The outcome of \<open>parseInput\<close>, by cases on the steps.\<close>

lemma parseInput_cases:
  "parseInput argv =
     (let args = drop 1 argv; p = InputParser_new argv in
      if help_requested args then (ParsedInput_new\<lparr>exit_code := Some EXIT_SUCCESS\<rparr>, help_msg)
      else case source_spec args of
        None \<Rightarrow> (if ''-b'' \<notin> set args \<and> ''-f'' \<notin> set args
                 then (ParsedInput_new\<lparr>exit_code := Some EXIT_SUCCESS\<rparr>, usage) else missusage ParsedInput_new)
      | Some (lidar, v) \<Rightarrow>
          (let p1 = (if lidar
                     then ParsedInput_new\<lparr>is_ok := True, is_lidar := Some True, broadcast_code := PtrTo (getOption p ''-b'')\<rparr>
                     else ParsedInput_new\<lparr>is_ok := True, is_lidar := Some False, filename := v\<rparr>)
           in case duration_spec args ''-d'' DEFAULT_FRAME_TIME of
                None \<Rightarrow> missusage p1
              | Some ft \<Rightarrow> (case mode_spec args of
                  None \<Rightarrow> missusage (p1\<lparr>frame_time := ft\<rparr>)
                | Some tm \<Rightarrow> (case duration_spec args ''-g'' DEFAULT_BACKGROUND_TIME of
                    None \<Rightarrow> missusage (p1\<lparr>frame_time := ft, time_mode := tm\<rparr>)
                  | Some bg \<Rightarrow> (case reflectivity_spec args of
                      None \<Rightarrow> missusage (p1\<lparr>frame_time := ft, time_mode := tm, background_time := bg\<rparr>)
                    | Some rf \<Rightarrow> (p1\<lparr>frame_time := ft, time_mode := tm, background_time := bg,
                                     min_reflectivity := rf\<rparr>, []))))))"
  by (auto simp: parseInput_def Let_def parse_steps ParsedInput_new_def
      split: option.splits sum.splits if_splits)

lemma parseInput_results:
  "parseInput argv = (pin, out) \<Longrightarrow>
     (is_ok pin \<and> exit_code pin = None \<and> out = []) \<or>
     (\<not> is_ok pin \<and> exit_code pin = Some EXIT_FAILURE \<and> out = usage) \<or>
     (\<not> is_ok pin \<and> exit_code pin = Some EXIT_SUCCESS \<and> (out = usage \<or> out = help_msg))"
  by (auto simp: parseInput_cases Let_def missusage_def ParsedInput_new_def
      split: option.splits if_splits)

lemma is_ok_specs:
  assumes "is_ok (fst (parseInput argv))"
  shows "\<not> help_requested (drop 1 argv) \<and> source_spec (drop 1 argv) \<noteq> None \<and>
    duration_spec (drop 1 argv) ''-d'' DEFAULT_FRAME_TIME = Some (frame_time (fst (parseInput argv))) \<and>
    mode_spec (drop 1 argv) = Some (time_mode (fst (parseInput argv))) \<and>
    duration_spec (drop 1 argv) ''-g'' DEFAULT_BACKGROUND_TIME = Some (background_time (fst (parseInput argv))) \<and>
    reflectivity_spec (drop 1 argv) = Some (min_reflectivity (fst (parseInput argv))) \<and>
    exit_code (fst (parseInput argv)) = None \<and> snd (parseInput argv) = []"
  using assms by (auto simp: parseInput_cases Let_def missusage_def ParsedInput_new_def split: option.splits if_splits)

lemma arg_after_last:
  "opt \<notin> set xs \<Longrightarrow> arg_after (xs @ [opt]) opt = Some []"
  by (simp add: arg_after_def)

lemma source_spec_lidar_token:
  "source_spec args = Some (True, v) \<Longrightarrow> \<exists>i. getOption \<lparr>tokens = args\<rparr> ''-b'' = TokenRef i"
proof -
  assume h: "source_spec args = Some (True, v)"
  then have "length v = kBroadcastCodeSize"
    by (auto simp: source_spec_def split: option.splits if_splits)
  with source_spec_lidar [OF h] show ?thesis
    by (cases "getOption \<lparr>tokens = args\<rparr> ''-b''") (auto simp: kBroadcastCodeSize_def)
qed

lemma timer_mode_of_name [simp]: "timer_mode_of (mode_name m) = Some m"
  by (cases m) (simp_all add: timer_mode_of_def mode_name_def)



text \<open>C1. Refinement. \<open>parseInput\<close> implements the order-independent specification
  \<open>cli_spec\<close>: a command line is accepted exactly when the specification gives a
  configuration, and then the parsed fields (the broadcast code read while the parser is
  alive) are that configuration.\<close>

theorem parseInput_refines_cli_spec:
  "cli_spec argv =
     (if is_ok (fst (parseInput argv)) then Some (config_of (drop 1 argv) (fst (parseInput argv))) else None)"
  by (auto simp: parseInput_def cli_spec_def Let_def parse_steps ParsedInput_new_def
      missusage_def config_of_def InputParser_new_def
      dest: source_spec_lidar split: option.splits sum.splits if_splits)

text \<open>C2. main starts the App exactly when the specification cli_spec accepts the command
  line, with the configuration's timer mode, durations and reflectivity and, for a
  file, its name; for a lidar the source argument is the dangling read.\<close>

theorem main_app_spec:
  "main_app (main argv) = map_option app_of (cli_spec argv)"
  by (auto simp: main_def parseInput_def cli_spec_def Let_def parse_steps ParsedInput_new_def
      missusage_def app_of_def InputParser_new_def deref_def
      dest: source_spec_lidar_token split: option.splits sum.splits if_splits prod.splits)



end
