(* ===== verification/CliProperties.thy ===== *)
theory CliProperties
  imports CliSpec
begin

text \<open>
  Properties of \<open>parseInput\<close> and \<open>main\<close> (src/src/main/main.cc) on every branch:
  outcomes and exit codes, precedence of help and of \<open>-b\<close>, defaults, first error
  and first occurrence, missing values, the conversions' wrap-around and suffix
  behaviour, the dangling broadcast-code read and the exit status of \<open>main\<close>.
\<close>

text \<open>C3. Every run of \<open>parseInput\<close> ends in one of three ways: accepted
  (\<open>is_ok\<close>, nothing printed, \<open>exit_code\<close> never assigned), rejected by
  \<open>missusage\<close> (\<open>EXIT_FAILURE\<close>, usage printed), or help/usage requested
  (\<open>EXIT_SUCCESS\<close>, usage or help printed).  No path leaves a rejected result without
  an exit code, and no exception escapes.\<close>

theorem parseInput_outcome:
  "parseInput argv = (pin, out) \<Longrightarrow>
     (is_ok pin \<and> exit_code pin = None \<and> out = []) \<or>
     (\<not> is_ok pin \<and> exit_code pin = Some EXIT_FAILURE \<and> out = usage) \<or>
     (\<not> is_ok pin \<and> exit_code pin = Some EXIT_SUCCESS \<and> (out = usage \<or> out = help_msg))"
  by (auto simp: parseInput_cases Let_def missusage_def ParsedInput_new_def
      split: option.splits if_splits)

text \<open>C15. \<open>-h\<close> or \<open>--help\<close> anywhere on the command line wins over every other
  option: the help text is printed, nothing is accepted, the exit code is
  \<open>EXIT_SUCCESS\<close>.\<close>

theorem parseInput_help:
  "help_requested (drop 1 argv) \<Longrightarrow>
   parseInput argv = (ParsedInput_new\<lparr>exit_code := Some EXIT_SUCCESS\<rparr>, help_msg)"
  by (simp add: parseInput_cases)

text \<open>C16. Without \<open>-b\<close> or \<open>-f\<close> (and without help) the command line is not
  accepted: the usage is printed with exit code \<open>EXIT_SUCCESS\<close>, whatever other
  options are given.\<close>

theorem parseInput_no_source:
  "\<not> help_requested (drop 1 argv) \<Longrightarrow> ''-b'' \<notin> set (drop 1 argv) \<Longrightarrow> ''-f'' \<notin> set (drop 1 argv) \<Longrightarrow>
   parseInput argv = (ParsedInput_new\<lparr>exit_code := Some EXIT_SUCCESS\<rparr>, usage)"
  by (simp add: parseInput_cases source_spec_def)

text \<open>C17. A \<open>-b\<close> value whose length is not \<open>kBroadcastCodeSize\<close> (16) is
  rejected through \<open>missusage\<close>, before any other option is read.\<close>

theorem parseInput_broadcast_code_length:
  "\<not> help_requested (drop 1 argv) \<Longrightarrow> arg_after (drop 1 argv) ''-b'' = Some v \<Longrightarrow>
   length v \<noteq> kBroadcastCodeSize \<Longrightarrow> parseInput argv = missusage ParsedInput_new"
  by (simp add: parseInput_cases source_spec_def arg_after_def split: if_splits)

text \<open>C18. \<open>-b\<close> takes precedence over \<open>-f\<close>: when \<open>-b\<close> is present the file
  name is never assigned and the source is never a file.\<close>

theorem parseInput_lidar_over_file:
  "\<not> help_requested (drop 1 argv) \<Longrightarrow> ''-b'' \<in> set (drop 1 argv) \<Longrightarrow>
   filename (fst (parseInput argv)) = [] \<and> is_lidar (fst (parseInput argv)) \<noteq> Some False"
  by (auto simp: parseInput_cases source_spec_def arg_after_def Let_def missusage_def ParsedInput_new_def
      split: option.splits if_splits)

text \<open>C19. Bounds of \<open>-d\<close>: an accepted decimal frame time \<open>n\<close> is at most
  \<open>ULONG_MAX\<close> and is stored modulo \<open>2^32\<close> (\<open>static_cast<uint32_t>\<close> of
  \<open>std::stoul\<close>), so e.g. 4294967396 ms becomes 100 ms.\<close>

theorem parseInput_frame_time_wraps:
  assumes "is_ok (fst (parseInput argv))" and "arg_after (drop 1 argv) ''-d'' = Some (decimal_string n)"
  shows "unat (frame_time (fst (parseInput argv))) = n mod 2 ^ 32 \<and> n \<le> ULONG_MAX"
proof -
  from is_ok_specs [OF assms(1)] assms(2)
  have "frame_time (fst (parseInput argv)) = word_of_nat n" and "n \<le> ULONG_MAX"
    by (auto simp: duration_spec_def stoul_decimal_string split: if_splits)
  then show ?thesis by (simp add: unat_of_nat)
qed

text \<open>C20. A negative \<open>-d\<close> value is accepted: when the other options are valid,
  \<open>-d -n\<close> (with \<open>n \<le> ULONG_MAX\<close>) is accepted, because \<open>std::stoul\<close> takes a
  leading minus sign and negates in unsigned arithmetic, and the frame time is
  \<open>2^32 - n\<close> modulo \<open>2^32\<close>; e.g. \<open>-1\<close> gives 4294967295 ms.\<close>

theorem parseInput_negative_frame_time:
  assumes "\<not> help_requested (drop 1 argv)" and "source_spec (drop 1 argv) \<noteq> None"
    and "arg_after (drop 1 argv) ''-d'' = Some (CHR ''-'' # decimal_string n)" and "n \<le> ULONG_MAX"
    and "mode_spec (drop 1 argv) \<noteq> None"
    and "duration_spec (drop 1 argv) ''-g'' DEFAULT_BACKGROUND_TIME \<noteq> None"
    and "reflectivity_spec (drop 1 argv) \<noteq> None"
  shows "is_ok (fst (parseInput argv)) \<and> frame_time (fst (parseInput argv)) = - word_of_nat n"
proof -
  have "duration_spec (drop 1 argv) ''-d'' DEFAULT_FRAME_TIME = Some (- word_of_nat n)"
    using assms(3,4) by (simp add: duration_spec_def stoul_decimal_string not_less)
  with assms(1,2,5-7) show ?thesis
    by (auto simp: parseInput_cases Let_def ParsedInput_new_def split: option.splits if_splits)
qed

text \<open>C6. When \<open>parseInput\<close> rejects the command line with
  \<open>exit_code = EXIT_FAILURE\<close>, \<open>main\<close> prints the usage, starts no application and
  still returns \<open>EXIT_SUCCESS\<close>: the exit code is never returned.\<close>

theorem main_failure_reports_success:
  "exit_code (fst (parseInput argv)) = Some EXIT_FAILURE \<Longrightarrow>
   main_exit (main argv) = EXIT_SUCCESS \<and> main_app (main argv) = None \<and> main_console (main argv) = usage"
  using parseInput_results [of argv "fst (parseInput argv)" "snd (parseInput argv)"]
  by (auto simp: main_def split: prod.splits)

text \<open>C4. When \<open>main\<close> starts the application on a lidar sensor, the broadcast code
  it passes is read through \<open>pi.broadcast_code\<close>, a pointer into the token vector of
  the \<open>InputParser\<close> local to \<open>parseInput\<close>, which has been destroyed: the read
  is a dangling-pointer read.\<close>

theorem main_lidar_dangling:
  "main_app (main argv) = Some a \<Longrightarrow> app_is_lidar a \<Longrightarrow> app_source a = Inl DanglingPointer"
  by (auto simp: main_def parseInput_cases Let_def missusage_def ParsedInput_new_def deref_def
      InputParser_new_def dest!: source_spec_lidar_token split: prod.splits option.splits if_splits)

text \<open>C25. Defaults: an accepted command line without -d, -t, -g and -r runs with a
  frame time of 100 ms, no chronometer, a background time of 500 ms and a minimum
  reflectivity of 0.\<close>

theorem parseInput_defaults:
  assumes "is_ok (fst (parseInput argv))"
    and "''-d'' \<notin> set (drop 1 argv)" "''-t'' \<notin> set (drop 1 argv)"
    and "''-g'' \<notin> set (drop 1 argv)" "''-r'' \<notin> set (drop 1 argv)"
  shows "frame_time (fst (parseInput argv)) = 100 \<and> time_mode (fst (parseInput argv)) = kUntimed \<and>
         background_time (fst (parseInput argv)) = 500 \<and> min_reflectivity (fst (parseInput argv)) = Fin 0"
  using is_ok_specs [OF assms(1)] assms(2-)
  by (simp add: duration_spec_def mode_spec_def reflectivity_spec_def DEFAULT_FRAME_TIME_def
      DEFAULT_BACKGROUND_TIME_def DEFAULT_MIN_RELECTIVITY_def)

text \<open>C23. The first invalid option ends the parse: when std::stoul rejects the -d value,
  parseInput returns through missusage (usage printed, EXIT_FAILURE) before -t, -g and
  -r are read, so those fields keep their defaults.\<close>

theorem parseInput_first_error_stops:
  assumes "\<not> help_requested (drop 1 argv)" and "source_spec (drop 1 argv) \<noteq> None"
    and "arg_after (drop 1 argv) ''-d'' = Some v" and "stoul v = Inl e"
  shows "parseInput argv = (fst (parseInput argv), usage) \<and> exit_code (fst (parseInput argv)) = Some EXIT_FAILURE \<and>
    time_mode (fst (parseInput argv)) = kUntimed \<and> background_time (fst (parseInput argv)) = DEFAULT_BACKGROUND_TIME \<and>
    min_reflectivity (fst (parseInput argv)) = DEFAULT_MIN_RELECTIVITY"
  using assms by (auto simp: parseInput_cases Let_def missusage_def ParsedInput_new_def duration_spec_def
      split: option.splits if_splits)

text \<open>C24. -t maps notime, char, anom and all to the four timer modes; any other value
  (the comparison is case sensitive) is rejected by missusage and leaves the mode
  untimed.\<close>

theorem parseInput_time_mode:
  assumes "\<not> help_requested (drop 1 argv)" and "source_spec (drop 1 argv) \<noteq> None"
    and "duration_spec (drop 1 argv) ''-d'' DEFAULT_FRAME_TIME \<noteq> None"
    and "arg_after (drop 1 argv) ''-t'' = Some v"
  shows "(timer_mode_of v = Some m \<longrightarrow> time_mode (fst (parseInput argv)) = m) \<and>
         (timer_mode_of v = None \<longrightarrow> exit_code (fst (parseInput argv)) = Some EXIT_FAILURE \<and>
            time_mode (fst (parseInput argv)) = kUntimed)"
  using assms by (auto simp: parseInput_cases Let_def missusage_def ParsedInput_new_def mode_spec_def
      split: option.splits if_splits)

text \<open>C26. Trailing characters after the digits of \<open>-d\<close> are ignored: when the other
  options are valid, a value made of the digits of \<open>n \<le> ULONG_MAX\<close> followed by
  anything that does not start with a digit (such as \<open>100ms\<close>) is accepted, since
  \<open>std::stoul\<close> stops at the first non-digit, and the frame time is \<open>n\<close> modulo
  \<open>2^32\<close>.\<close>

theorem parseInput_frame_time_suffix:
  assumes "\<not> help_requested (drop 1 argv)" and "source_spec (drop 1 argv) \<noteq> None"
    and "arg_after (drop 1 argv) ''-d'' = Some (decimal_string n @ rest)"
    and "takeWhile is_digit rest = []" and "n \<le> ULONG_MAX"
    and "mode_spec (drop 1 argv) \<noteq> None"
    and "duration_spec (drop 1 argv) ''-g'' DEFAULT_BACKGROUND_TIME \<noteq> None"
    and "reflectivity_spec (drop 1 argv) \<noteq> None"
  shows "is_ok (fst (parseInput argv)) \<and> unat (frame_time (fst (parseInput argv))) = n mod 2 ^ 32"
proof -
  have "duration_spec (drop 1 argv) ''-d'' DEFAULT_FRAME_TIME = Some (word_of_nat n)"
    using assms(3,5) by (simp add: duration_spec_def stoul_decimal_suffix [OF assms(4)] stoul_decimal_string not_less)
  with assms(1,2,6-8) have "is_ok (fst (parseInput argv)) \<and> frame_time (fst (parseInput argv)) = word_of_nat n"
    by (auto simp: parseInput_cases Let_def ParsedInput_new_def split: option.splits if_splits)
  then show ?thesis by (simp add: unat_of_nat)
qed

text \<open>C27. Bounds of -g: an accepted decimal background time n is at most ULONG_MAX
  and is stored modulo 2^32 by static_cast<uint32_t>.\<close>

theorem parseInput_background_time_wraps:
  assumes "is_ok (fst (parseInput argv))" and "arg_after (drop 1 argv) ''-g'' = Some (decimal_string n)"
  shows "unat (background_time (fst (parseInput argv))) = n mod 2 ^ 32 \<and> n \<le> ULONG_MAX"
proof -
  have "background_time (fst (parseInput argv)) = word_of_nat n \<and> n \<le> ULONG_MAX"
    using is_ok_specs [OF assms(1)] assms(2)
    by (auto simp: duration_spec_def stoul_decimal_string split: if_splits)
  then show ?thesis by (simp add: unat_of_nat)
qed

text \<open>C28. An option -b, -d, -t, -g or -r given as the last token has no value
  (getOption returns the empty string) and the command line is not accepted.\<close>

theorem parseInput_missing_value:
  assumes "drop 1 argv = xs @ [opt]" and "opt \<notin> set xs"
    and "opt \<in> {''-b'', ''-d'', ''-t'', ''-g'', ''-r''}"
  shows "\<not> is_ok (fst (parseInput argv))"
proof
  assume ok: "is_ok (fst (parseInput argv))"
  have "arg_after (drop 1 argv) opt = Some []" using assms(1,2) by (simp add: arg_after_last)
  with is_ok_specs [OF ok] assms(3) show False
    by (auto simp: source_spec_def duration_spec_def mode_spec_def reflectivity_spec_def kBroadcastCodeSize_def
        split: option.splits if_splits)
qed

text \<open>C22. An accepted result always has its source: for a lidar, broadcast_code points
  at a token of the parser holding exactly kBroadcastCodeSize characters; for a file,
  the file name is not empty; is_lidar is never left unassigned.\<close>

theorem parseInput_accepted_source:
  assumes "is_ok (fst (parseInput argv))"
  shows "case is_lidar (fst (parseInput argv)) of
           Some True \<Rightarrow> (\<exists>i < length (drop 1 argv). broadcast_code (fst (parseInput argv)) = PtrTo (TokenRef i) \<and>
                          length (drop 1 argv ! i) = kBroadcastCodeSize)
         | Some False \<Rightarrow> filename (fst (parseInput argv)) \<noteq> []
         | None \<Rightarrow> False"
  using assms
  by (auto simp: parseInput_cases Let_def missusage_def ParsedInput_new_def source_spec_def
      arg_after_def getOption_def kBroadcastCodeSize_def split: option.splits if_splits)

text \<open>C29. Option values are not checked against option names: in -f -d v, the token
  -d is taken as the file name and is also read as the -d option with value v.\<close>

theorem parseInput_option_as_value:
  assumes "drop 1 argv = [''-f'', ''-d'', v]" and "stoul v = Inr n"
  shows "parseInput argv = (ParsedInput_new\<lparr>is_ok := True, is_lidar := Some False, filename := ''-d'',
                                             frame_time := ucast n\<rparr>, [])"
proof -
  have "list_all (\<lambda>opt. opt \<noteq> v) [''-h'', ''--help'', ''-b'', ''-f'', ''-d'', ''-t'', ''-g'', ''-r'']"
    using assms(2) by (auto simp: stoul_def is_digit_def is_space_def)
  with assms show ?thesis
  by (simp add: parseInput_cases Let_def help_requested_def source_spec_def duration_spec_def arg_after_def
      mode_spec_def reflectivity_spec_def ParsedInput_new_def DEFAULT_FRAME_TIME_def
      DEFAULT_MIN_RELECTIVITY_def DEFAULT_BACKGROUND_TIME_def)
qed

text \<open>C21. Range of \<open>-r\<close>: when the other options are valid, an integral
  reflectivity floor \<open>n\<close> is accepted exactly when \<open>n\<close> is below the overflow
  threshold of \<open>float\<close>, \<open>2^128 - 2^103\<close> (from there on \<open>std::stof\<close> rounds to
  infinity and raises \<open>out_of_range\<close>, and \<open>parseInput\<close> returns through
  \<open>missusage\<close> with \<open>EXIT_FAILURE\<close>); an accepted floor is a finite value.\<close>

theorem parseInput_reflectivity_range:
  assumes "\<not> help_requested (drop 1 argv)" and "source_spec (drop 1 argv) \<noteq> None"
    and "duration_spec (drop 1 argv) ''-d'' DEFAULT_FRAME_TIME \<noteq> None"
    and "mode_spec (drop 1 argv) \<noteq> None"
    and "duration_spec (drop 1 argv) ''-g'' DEFAULT_BACKGROUND_TIME \<noteq> None"
    and "arg_after (drop 1 argv) ''-r'' = Some (decimal_string n)"
  shows "(is_ok (fst (parseInput argv)) \<longleftrightarrow> real n < 2 ^ 128 - 2 ^ 103) \<and>
         (\<not> is_ok (fst (parseInput argv)) \<longrightarrow> exit_code (fst (parseInput argv)) = Some EXIT_FAILURE) \<and>
         (is_ok (fst (parseInput argv)) \<longrightarrow> flt_finite (min_reflectivity (fst (parseInput argv))))"
proof -
  have "reflectivity_spec (drop 1 argv) =
      (if real n < 2 ^ 128 - 2 ^ 103 then Some (Fin (real n)) else None)"
    using assms(6) by (simp add: reflectivity_spec_def stof_decimal_string stof_range_nat_iff not_le)
  with assms(1-5) show ?thesis
    by (auto simp: parseInput_cases Let_def missusage_def ParsedInput_new_def split: option.splits if_splits)
qed

theorem parseInput_outcome_witness:
  "\<not> is_ok (fst (parseInput [''lbad'', ''-f''])) \<and>
   exit_code (fst (parseInput [''lbad'', ''-f''])) = Some EXIT_FAILURE"
proof -
  have h: "parseInput [''lbad'', ''-f''] = (fst (parseInput [''lbad'', ''-f'']), usage)"
    by (simp add: cli_eval)
  have "fst (parseInput [''lbad'', ''-f'']) = ParsedInput_new\<lparr>is_ok := False, exit_code := Some EXIT_FAILURE\<rparr>"
    by (simp add: cli_eval)
  with parseInput_outcome [OF h] show ?thesis by (simp add: ParsedInput_new_def)
qed

theorem main_lidar_dangling_witness:
  "main_app (main [''lbad'', ''-b'', ''0TFDG3B006H2Z110'']) \<noteq> None \<and>
   app_source (the (main_app (main [''lbad'', ''-b'', ''0TFDG3B006H2Z110'']))) = Inl DanglingPointer"
proof -
  have h: "main_app (main [''lbad'', ''-b'', ''0TFDG3B006H2Z110'']) =
      Some (the (main_app (main [''lbad'', ''-b'', ''0TFDG3B006H2Z110''])))"
   and l: "app_is_lidar (the (main_app (main [''lbad'', ''-b'', ''0TFDG3B006H2Z110''])))"
    by (simp_all add: main_def cli_eval deref_def)
  from main_lidar_dangling [OF h l] h show ?thesis by (metis option.distinct(1))
qed

theorem main_failure_reports_success_witness:
  "main_exit (main [''lbad'', ''-f'', ''scan.csv'', ''-t'', ''fast'']) = EXIT_SUCCESS \<and>
   main_app (main [''lbad'', ''-f'', ''scan.csv'', ''-t'', ''fast'']) = None"
proof -
  have "exit_code (fst (parseInput [''lbad'', ''-f'', ''scan.csv'', ''-t'', ''fast''])) = Some EXIT_FAILURE"
    by (simp add: cli_eval)
  from main_failure_reports_success [OF this] show ?thesis by simp
qed

theorem parseInput_help_witness:
  "parseInput [''lbad'', ''-f'', ''scan.csv'', ''--help''] = (ParsedInput_new\<lparr>exit_code := Some EXIT_SUCCESS\<rparr>, help_msg)"
  by (rule parseInput_help) (simp add: help_requested_def)

theorem parseInput_no_source_witness:
  "parseInput [''lbad'', ''-d'', ''50''] = (ParsedInput_new\<lparr>exit_code := Some EXIT_SUCCESS\<rparr>, usage)"
  by (rule parseInput_no_source) (simp_all add: help_requested_def)

theorem parseInput_broadcast_code_length_witness:
  "parseInput [''lbad'', ''-b'', ''0TFDG3B006H2Z11''] = missusage ParsedInput_new"
  using parseInput_broadcast_code_length [of "[''lbad'', ''-b'', ''0TFDG3B006H2Z11'']" "''0TFDG3B006H2Z11''"]
  by (simp add: help_requested_def arg_after_def kBroadcastCodeSize_def)

theorem parseInput_lidar_over_file_witness:
  "filename (fst (parseInput [''lbad'', ''-f'', ''scan.csv'', ''-b'', ''0TFDG3B006H2Z110''])) = []"
  using parseInput_lidar_over_file [of "[''lbad'', ''-f'', ''scan.csv'', ''-b'', ''0TFDG3B006H2Z110'']"]
  by (simp add: help_requested_def)

theorem parseInput_frame_time_wraps_witness:
  "unat (frame_time (fst (parseInput [''lbad'', ''-f'', ''scan.csv'', ''-d'', ''4294967396'']))) = 100"
proof -
  have "is_ok (fst (parseInput [''lbad'', ''-f'', ''scan.csv'', ''-d'', ''4294967396'']))"
    by (simp add: cli_eval conv_eval)
  moreover have "arg_after (drop 1 [''lbad'', ''-f'', ''scan.csv'', ''-d'', ''4294967396'']) ''-d'' =
      Some (decimal_string 4294967396)"
  proof -
    have "decimal_string 4294967396 = ''4294967396''"
      by (simp add: decimal_string.simps char_of_eq_iff)
    then show ?thesis by (simp add: arg_after_def)
  qed
  ultimately show ?thesis using parseInput_frame_time_wraps by fastforce
qed

theorem parseInput_negative_frame_time_witness:
  "is_ok (fst (parseInput [''lbad'', ''-f'', ''scan.csv'', ''-d'', ''-1''])) \<and>
   frame_time (fst (parseInput [''lbad'', ''-f'', ''scan.csv'', ''-d'', ''-1''])) = 4294967295"
proof -
  have "decimal_string 1 = ''1''" by (simp add: decimal_string.simps char_of_eq_iff)
  then have "arg_after (drop 1 [''lbad'', ''-f'', ''scan.csv'', ''-d'', ''-1'']) ''-d'' = Some (CHR ''-'' # decimal_string 1)"
    by (simp add: arg_after_def)
  from parseInput_negative_frame_time [OF _ _ this] show ?thesis
    by (simp add: help_requested_def source_spec_def arg_after_def mode_spec_def duration_spec_def
        reflectivity_spec_def ULONG_MAX_def)
qed

theorem parseInput_defaults_witness:
  "frame_time (fst (parseInput [''lbad'', ''-f'', ''scan.csv''])) = 100 \<and>
   background_time (fst (parseInput [''lbad'', ''-f'', ''scan.csv''])) = 500"
proof -
  have "is_ok (fst (parseInput [''lbad'', ''-f'', ''scan.csv'']))" by (simp add: cli_eval)
  from parseInput_defaults [OF this] show ?thesis by simp
qed

theorem parseInput_first_error_stops_witness:
  "exit_code (fst (parseInput [''lbad'', ''-f'', ''scan.csv'', ''-d'', ''abc'', ''-t'', ''all''])) = Some EXIT_FAILURE \<and>
   time_mode (fst (parseInput [''lbad'', ''-f'', ''scan.csv'', ''-d'', ''abc'', ''-t'', ''all''])) = kUntimed"
proof -
  have "stoul ''abc'' = Inl InvalidArgument" by (simp add: conv_eval)
  from parseInput_first_error_stops [OF _ _ _ this, of "[''lbad'', ''-f'', ''scan.csv'', ''-d'', ''abc'', ''-t'', ''all'']"]
  show ?thesis by (simp add: help_requested_def source_spec_def arg_after_def)
qed

theorem parseInput_time_mode_witness:
  "exit_code (fst (parseInput [''lbad'', ''-f'', ''scan.csv'', ''-t'', ''ALL''])) = Some EXIT_FAILURE"
  using parseInput_time_mode [of "[''lbad'', ''-f'', ''scan.csv'', ''-t'', ''ALL'']" "''ALL''" kTimed]
  by (simp add: help_requested_def source_spec_def arg_after_def duration_spec_def timer_mode_of_def)

theorem parseInput_frame_time_suffix_witness:
  "is_ok (fst (parseInput [''lbad'', ''-f'', ''scan.csv'', ''-d'', ''100ms''])) \<and>
   unat (frame_time (fst (parseInput [''lbad'', ''-f'', ''scan.csv'', ''-d'', ''100ms'']))) = 100"
proof -
  have "decimal_string 100 = ''100''" by (simp add: decimal_string.simps char_of_eq_iff)
  then have "arg_after (drop 1 [''lbad'', ''-f'', ''scan.csv'', ''-d'', ''100ms'']) ''-d'' = Some (decimal_string 100 @ ''ms'')"
    by (simp add: arg_after_def)
  from parseInput_frame_time_suffix [OF _ _ this] show ?thesis
    by (simp add: help_requested_def source_spec_def arg_after_def mode_spec_def duration_spec_def
        reflectivity_spec_def ULONG_MAX_def is_digit_def)
qed

theorem parseInput_background_time_wraps_witness:
  "unat (background_time (fst (parseInput [''lbad'', ''-f'', ''scan.csv'', ''-g'', ''4294967796'']))) = 500"
proof -
  have ok: "is_ok (fst (parseInput [''lbad'', ''-f'', ''scan.csv'', ''-g'', ''4294967796'']))"
    by (simp add: cli_eval conv_eval)
  have "decimal_string 4294967796 = ''4294967796''" by (simp add: decimal_string.simps char_of_eq_iff)
  then have "arg_after (drop 1 [''lbad'', ''-f'', ''scan.csv'', ''-g'', ''4294967796'']) ''-g'' = Some (decimal_string 4294967796)"
    by (simp add: arg_after_def)
  from parseInput_background_time_wraps [OF ok this] show ?thesis by simp
qed

theorem parseInput_missing_value_witness:
  "\<not> is_ok (fst (parseInput [''lbad'', ''-f'', ''scan.csv'', ''-r'']))"
  by (rule parseInput_missing_value [of _ "[''-f'', ''scan.csv'']" "''-r''"]) simp_all

theorem parseInput_accepted_source_witness:
  "broadcast_code (fst (parseInput [''lbad'', ''-b'', ''0TFDG3B006H2Z110''])) = PtrTo (TokenRef 1) \<and>
   length (drop 1 [''lbad'', ''-b'', ''0TFDG3B006H2Z110''] ! 1) = kBroadcastCodeSize"
proof -
  have ok: "is_ok (fst (parseInput [''lbad'', ''-b'', ''0TFDG3B006H2Z110'']))" by (simp add: cli_eval)
  have l: "is_lidar (fst (parseInput [''lbad'', ''-b'', ''0TFDG3B006H2Z110''])) = Some True" by (simp add: cli_eval)
  from parseInput_accepted_source [OF ok] l obtain i where
    "i < 2" "broadcast_code (fst (parseInput [''lbad'', ''-b'', ''0TFDG3B006H2Z110''])) = PtrTo (TokenRef i)"
    "length (drop 1 [''lbad'', ''-b'', ''0TFDG3B006H2Z110''] ! i) = kBroadcastCodeSize" by auto
  moreover have "broadcast_code (fst (parseInput [''lbad'', ''-b'', ''0TFDG3B006H2Z110''])) = PtrTo (TokenRef 1)"
    by (simp add: cli_eval)
  ultimately show ?thesis by simp
qed

theorem parseInput_option_as_value_witness:
  "filename (fst (parseInput [''lbad'', ''-f'', ''-d'', ''250''])) = ''-d'' \<and>
   frame_time (fst (parseInput [''lbad'', ''-f'', ''-d'', ''250''])) = 250"
proof -
  have "stoul ''250'' = Inr 250" by (simp add: conv_eval)
  from parseInput_option_as_value [OF _ this, of "[''lbad'', ''-f'', ''-d'', ''250'']"] show ?thesis by simp
qed

theorem parseInput_reflectivity_range_witness:
  "\<not> is_ok (fst (parseInput [''lbad'', ''-f'', ''scan.csv'', ''-r'', ''340282366920938463463374607431768211456'']))"
proof -
  have "decimal_string (2 ^ 128) = ''340282366920938463463374607431768211456''"
    by (simp add: decimal_string.simps char_of_eq_iff)
  then have "arg_after (drop 1 [''lbad'', ''-f'', ''scan.csv'', ''-r'', ''340282366920938463463374607431768211456''])
      ''-r'' = Some (decimal_string (2 ^ 128))" by (simp add: arg_after_def)
  from parseInput_reflectivity_range [OF _ _ _ _ _ this] show ?thesis
    by (simp add: help_requested_def source_spec_def arg_after_def duration_spec_def mode_spec_def)
qed

end
