(* ===== verification/Points.thy ===== *)
theory Points
  imports Prelude
begin

text \<open>
  The point type the pipeline consumes (Point.hpp, not staged; spec section 3): three
  float coordinates, a float reflectivity and a timestamp in milliseconds.  A point is
  well formed when its three coordinates are finite.
\<close>

record Point =
  px :: flt
  py :: flt
  pz :: flt
  reflectivity :: flt
  timestamp :: msec

definition point_finite :: "Point \<Rightarrow> bool" where
  "point_finite p \<longleftrightarrow> flt_finite (px p) \<and> flt_finite (py p) \<and> flt_finite (pz p)"

text \<open>The real coordinates of a well-formed point.\<close>

definition coords :: "Point \<Rightarrow> real \<times> real \<times> real" where
  "coords p = (flt_val (px p), flt_val (py p), flt_val (pz p))"

definition mk_point :: "real \<Rightarrow> real \<Rightarrow> real \<Rightarrow> real \<Rightarrow> msec \<Rightarrow> Point" where
  "mk_point x y z r t = \<lparr>px = Fin x, py = Fin y, pz = Fin z, reflectivity = Fin r, timestamp = t\<rparr>"

lemma point_finite_mk_point [simp]: "point_finite (mk_point x y z r t)"
  by (simp add: point_finite_def mk_point_def)

lemma mk_point_sel [simp]:
  "coords (mk_point x y z r t) = (x, y, z)" "timestamp (mk_point x y z r t) = t"
  "reflectivity (mk_point x y z r t) = Fin r"
  by (simp_all add: coords_def mk_point_def)

end
