(* ===== verification/BackgroundFilter.thy ===== *)
theory BackgroundFilter
  imports Points
begin

text \<open>
  Background Filter (spec section 4.1).  Its state is the start of the learning
  window, the background cells and the count of malformed points.  Cells are keyed
  by the quantisation \<open>\<lfloor>x / s\<rfloor>, \<lfloor>y / s\<rfloor>, \<lfloor>z / s\<rfloor>\<close> of the point with the
  configured cell size \<open>s > 0\<close> (the spatial tolerance); each stores a hit count
  and the last time it was seen.  The learning window starts at the first point the
  filter observes (spec section 9) and lasts \<open>background_time\<close> milliseconds.

  \<open>classify\<close> decides each point once:
  \<^item> a point with a non-finite coordinate is Background and counted as malformed;
  \<^item> during the learning window every point is Background and creates or refreshes
    its cell;
  \<^item> afterwards a point whose cell exists is Background and refreshes the cell;
  \<^item> otherwise a point whose reflectivity is below the floor is Background (noise,
    which creates no cell);
  \<^item> every other point is a Candidate.
\<close>

datatype Classification = Background | Candidate

record BgCell =
  hits :: nat
  last_seen :: msec

type_synonym cell_key = "int \<times> int \<times> int"

record BgConfig =
  bg_time :: u32
  bg_min_reflectivity :: flt
  cell_size :: real

record BgState =
  learn_start :: "msec option"
  cells :: "cell_key \<Rightarrow> BgCell option"
  malformed :: nat

definition bg_init :: BgState where
  "bg_init = \<lparr>learn_start = None, cells = Map.empty, malformed = 0\<rparr>"

definition cell_key :: "real \<Rightarrow> Point \<Rightarrow> cell_key" where
  "cell_key s p = (\<lfloor>flt_val (px p) / s\<rfloor>, \<lfloor>flt_val (py p) / s\<rfloor>, \<lfloor>flt_val (pz p) / s\<rfloor>)"

definition touch_cell :: "msec \<Rightarrow> BgCell option \<Rightarrow> BgCell" where
  "touch_cell t c =
     (case c of None \<Rightarrow> \<lparr>hits = 1, last_seen = t\<rparr> | Some b \<Rightarrow> \<lparr>hits = Suc (hits b), last_seen = t\<rparr>)"

definition classify :: "BgConfig \<Rightarrow> BgState \<Rightarrow> Point \<Rightarrow> Classification \<times> BgState" where
  "classify cfg st p =
     (let t0 = (case learn_start st of None \<Rightarrow> timestamp p | Some t \<Rightarrow> t);
          st1 = st\<lparr>learn_start := Some t0\<rparr>;
          k = cell_key (cell_size cfg) p;
          refresh = st1\<lparr>cells := (cells st1)(k \<mapsto> touch_cell (timestamp p) (cells st1 k))\<rparr>
      in if \<not> point_finite p then (Background, st1\<lparr>malformed := Suc (malformed st1)\<rparr>)
         else if timestamp p - t0 < unat (bg_time cfg) then (Background, refresh)
         else if k \<in> dom (cells st1) then (Background, refresh)
         else if flt_less (reflectivity p) (bg_min_reflectivity cfg) then (Background, st1)
         else (Candidate, st1))"

definition nan_point :: Point where
  "nan_point = \<lparr>px = NaN, py = Fin 0, pz = Fin 0, reflectivity = Fin 50, timestamp = 3\<rparr>"

definition demo_bg :: BgConfig where
  "demo_bg = \<lparr>bg_time = 500, bg_min_reflectivity = Fin 0, cell_size = 1\<rparr>"

lemma classify_learn_start:
  "learn_start (snd (classify cfg st p)) = Some (case learn_start st of None \<Rightarrow> timestamp p | Some t \<Rightarrow> t)"
  by (simp add: classify_def Let_def)

lemma classify_candidate_finite: "fst (classify cfg st p) = Candidate \<Longrightarrow> point_finite p"
  by (auto simp: classify_def Let_def split: if_splits)

text \<open>A point with a non-finite coordinate is classified Background, counted as
  malformed and touches no background cell (spec sections 4.1 and 7).\<close>

theorem classify_malformed:
  "\<not> point_finite p \<Longrightarrow>
   classify cfg st p =
     (Background, st\<lparr>learn_start := Some (case learn_start st of None \<Rightarrow> timestamp p | Some t \<Rightarrow> t),
                     malformed := Suc (malformed st)\<rparr>)"
  by (simp add: classify_def Let_def)

text \<open>A point is a Candidate exactly when it is well formed, the learning window
  (from the first point observed) is over, no background cell matches it, and its
  reflectivity is not below the floor.\<close>

theorem classify_candidate_iff:
  "fst (classify cfg st p) = Candidate \<longleftrightarrow>
     point_finite p \<and>
     unat (bg_time cfg) \<le> timestamp p - (case learn_start st of None \<Rightarrow> timestamp p | Some t \<Rightarrow> t) \<and>
     cells st (cell_key (cell_size cfg) p) = None \<and>
     \<not> flt_less (reflectivity p) (bg_min_reflectivity cfg)"
  by (auto simp: classify_def Let_def not_less split: if_splits)

text \<open>During the learning window every well-formed point is Background and
  creates or refreshes its background cell.\<close>

theorem classify_learning_window:
  assumes "point_finite p" and "learn_start st = Some t0" and "timestamp p - t0 < unat (bg_time cfg)"
  shows "fst (classify cfg st p) = Background \<and>
         cells (snd (classify cfg st p)) (cell_key (cell_size cfg) p) =
           Some (touch_cell (timestamp p) (cells st (cell_key (cell_size cfg) p)))"
  using assms by (simp add: classify_def Let_def)


theorem classify_malformed_witness:
  "malformed (snd (classify demo_bg bg_init nan_point)) = 1 \<and> fst (classify demo_bg bg_init nan_point) = Background"
  using classify_malformed [of nan_point demo_bg bg_init]
  by (simp add: nan_point_def point_finite_def bg_init_def)

theorem classify_learning_window_witness:
  "fst (classify demo_bg (bg_init\<lparr>learn_start := Some 0\<rparr>) (mk_point 0 0 0 50 100)) = Background"
  using classify_learning_window [of "mk_point 0 0 0 50 100" "bg_init\<lparr>learn_start := Some 0\<rparr>" 0 demo_bg]
  by (simp add: demo_bg_def bg_init_def)

end
