(* ===== verification/FrameAggregator.thy ===== *)
theory FrameAggregator
  imports BackgroundFilter
begin

text \<open>
  Frame Aggregator (spec section 4.2): the state machine
  \<open>Idle \<rightarrow> Accumulating \<rightarrow> (closing) \<rightarrow> Idle\<close>.  A frame exists only from its first
  Candidate point on; Background points are discarded.  \<open>on_tick now\<close> closes the open
  frame once \<open>now - start \<ge> frame_time\<close> and hands it on (an empty frame would be
  dropped without output).  \<open>on_point\<close> first lets the timer act at the point's own
  timestamp, so a point that arrives after the frame time opens the next frame, then
  appends the point in arrival order.  \<open>force_close\<close> is the close of the current
  frame at shutdown (spec section 5).
\<close>

record Frame =
  frame_start :: msec
  frame_points :: "Point list"

datatype FrameState = Idle | Accumulating msec "Point list"

definition emit_frame :: "msec \<Rightarrow> Point list \<Rightarrow> Frame list" where
  "emit_frame s buf = (if buf = [] then [] else [\<lparr>frame_start = s, frame_points = buf\<rparr>])"

definition on_tick :: "u32 \<Rightarrow> msec \<Rightarrow> FrameState \<Rightarrow> FrameState \<times> Frame list" where
  "on_tick ft now fs =
     (case fs of
        Idle \<Rightarrow> (Idle, [])
      | Accumulating s buf \<Rightarrow>
          (if unat ft \<le> now - s then (Idle, emit_frame s buf) else (fs, [])))"

definition on_point :: "u32 \<Rightarrow> Classification \<Rightarrow> Point \<Rightarrow> FrameState \<Rightarrow> FrameState \<times> Frame list" where
  "on_point ft c p fs =
     (if c = Background then (fs, [])
      else (let (fs1, out) = on_tick ft (timestamp p) fs
            in (case fs1 of
                  Idle \<Rightarrow> (Accumulating (timestamp p) [p], out)
                | Accumulating s buf \<Rightarrow> (Accumulating s (buf @ [p]), out))))"

definition force_close :: "FrameState \<Rightarrow> Frame list" where
  "force_close fs = (case fs of Idle \<Rightarrow> [] | Accumulating s buf \<Rightarrow> emit_frame s buf)"

fun open_points :: "FrameState \<Rightarrow> Point list" where
  "open_points Idle = []"
| "open_points (Accumulating s buf) = buf"

text \<open>
  Well-formed frames: non-empty, every point at or after the frame start and not after
  the current clock, and (for a positive frame time) less than the frame time after
  the start.
\<close>

definition frame_ok :: "u32 \<Rightarrow> msec \<Rightarrow> Frame \<Rightarrow> bool" where
  "frame_ok ft clk f \<longleftrightarrow> frame_points f \<noteq> [] \<and>
     (\<forall>p \<in> set (frame_points f). frame_start f \<le> timestamp p \<and> timestamp p \<le> clk \<and>
        (0 < unat ft \<longrightarrow> timestamp p - frame_start f < unat ft))"

fun agg_ok :: "u32 \<Rightarrow> msec \<Rightarrow> FrameState \<Rightarrow> bool" where
  "agg_ok ft clk Idle = True"
| "agg_ok ft clk (Accumulating s buf) = frame_ok ft clk \<lparr>frame_start = s, frame_points = buf\<rparr>"

lemma on_tick_points:
  "on_tick ft now fs = (fs', out) \<Longrightarrow> concat (map frame_points out) @ open_points fs' = open_points fs"
  by (auto simp: on_tick_def emit_frame_def split: FrameState.splits if_splits)

lemma on_point_points:
  "on_point ft c p fs = (fs', out) \<Longrightarrow>
   concat (map frame_points out) @ open_points fs' = open_points fs @ (if c = Candidate then [p] else [])"
  by (cases c) (auto simp: on_point_def on_tick_def emit_frame_def split: FrameState.splits if_splits)

lemma force_close_points: "concat (map frame_points (force_close fs)) = open_points fs"
  by (auto simp: force_close_def emit_frame_def split: FrameState.splits)

lemma frame_ok_mono: "frame_ok ft clk f \<Longrightarrow> clk \<le> clk' \<Longrightarrow> frame_ok ft clk' f"
  by (auto simp: frame_ok_def)

lemma frame_ok_start: "frame_ok ft clk f \<Longrightarrow> frame_start f \<le> clk"
  by (cases "frame_points f") (auto simp: frame_ok_def)

lemma on_tick_ok:
  "on_tick ft now fs = (fs', out) \<Longrightarrow> agg_ok ft clk fs \<Longrightarrow> clk \<le> now \<Longrightarrow>
   agg_ok ft now fs' \<and> (\<forall>f \<in> set out. frame_ok ft now f)"
proof (cases fs)
  case (Accumulating s buf)
  assume "on_tick ft now fs = (fs', out)" "agg_ok ft clk fs" "clk \<le> now"
  with Accumulating have "frame_ok ft now \<lparr>frame_start = s, frame_points = buf\<rparr>"
    by (auto intro: frame_ok_mono)
  with Accumulating \<open>on_tick ft now fs = (fs', out)\<close> show ?thesis
    by (auto simp: on_tick_def emit_frame_def split: if_splits)
qed (auto simp: on_tick_def)

lemma on_point_ok:
  assumes "on_point ft c p fs = (fs', out)" and "agg_ok ft clk fs" and "clk \<le> timestamp p"
  shows "agg_ok ft (timestamp p) fs' \<and> (\<forall>f \<in> set out. frame_ok ft (timestamp p) f)"
proof (cases "c = Background")
  case True
  with assms show ?thesis by (cases fs) (auto simp: on_point_def intro: frame_ok_mono)
next
  case False
  obtain fs1 out1 where t: "on_tick ft (timestamp p) fs = (fs1, out1)" by fastforce
  from on_tick_ok [OF t assms(2,3)] have ok1: "agg_ok ft (timestamp p) fs1"
    and out1: "\<forall>f \<in> set out1. frame_ok ft (timestamp p) f" by auto
  have fresh: "fs1 = Accumulating s buf \<Longrightarrow> timestamp p - s < unat ft" for s buf
    using t by (cases fs) (auto simp: on_tick_def split: if_splits)
  from assms(1) False t have eqs: "out = out1"
    "fs' = (case fs1 of Idle \<Rightarrow> Accumulating (timestamp p) [p] | Accumulating s buf \<Rightarrow> Accumulating s (buf @ [p]))"
    by (auto simp: on_point_def split: FrameState.splits)
  have start: "fs1 = Accumulating s buf \<Longrightarrow> s \<le> timestamp p" for s buf
    using ok1 frame_ok_start [of ft "timestamp p" "\<lparr>frame_start = s, frame_points = buf\<rparr>"] by simp
  with eqs ok1 out1 fresh show ?thesis
    by (cases fs1) (auto simp: frame_ok_def)
qed

lemma force_close_ok: "agg_ok ft clk fs \<Longrightarrow> \<forall>f \<in> set (force_close fs). frame_ok ft clk f"
  by (cases fs) (auto simp: force_close_def emit_frame_def frame_ok_def)

end
