(* ===== verification/ObjectCharacterizer.thy ===== *)
theory ObjectCharacterizer
  imports Points
begin

text \<open>
  Object Characterizer: the capability \<open>IObjectCaracterizator\<close> of
  src/include/object_characterization/IObjectCharacterizator.hpp (\<open>newPoint\<close>,
  \<open>newObject\<close>, \<open>extractCharacteristics\<close>) with the behaviour spec section 4.3
  gives it.  The state is the working buffer of points.  The characteristics vector
  holds the point count, the centroid, the extent (max - min) per axis and the
  density count/volume of the bounding box; a zero volume gives the density
  \<open>+inf\<close> (IEEE division of a positive count by zero) and an empty buffer gives the
  zero vector.  \<open>characteristics\<close> computes all of it in one pass over the buffer
  (running min, max and sum per axis); \<open>characteristics_spec\<close> is the reference
  definition with \<open>Min\<close>, \<open>Max\<close> and \<open>sum_list\<close>.
\<close>

record CharacteristicsVector =
  cv_count :: nat
  cv_centroid :: "real \<times> real \<times> real"
  cv_extent :: "real \<times> real \<times> real"
  cv_density :: flt

definition cv_empty :: CharacteristicsVector where
  "cv_empty = \<lparr>cv_count = 0, cv_centroid = (0, 0, 0), cv_extent = (0, 0, 0), cv_density = Fin 0\<rparr>"

record AxisAcc =
  lo :: real
  hi :: real
  total :: real

definition axis_init :: "real \<Rightarrow> AxisAcc" where
  "axis_init v = \<lparr>lo = v, hi = v, total = v\<rparr>"

definition axis_add :: "AxisAcc \<Rightarrow> real \<Rightarrow> AxisAcc" where
  "axis_add a v = \<lparr>lo = min (lo a) v, hi = max (hi a) v, total = total a + v\<rparr>"

record Acc =
  acc_n :: nat
  acc_x :: AxisAcc
  acc_y :: AxisAcc
  acc_z :: AxisAcc

definition acc_init :: "Point \<Rightarrow> Acc" where
  "acc_init p =
     (let (x, y, z) = coords p in \<lparr>acc_n = 1, acc_x = axis_init x, acc_y = axis_init y, acc_z = axis_init z\<rparr>)"

definition acc_add :: "Acc \<Rightarrow> Point \<Rightarrow> Acc" where
  "acc_add a p =
     (let (x, y, z) = coords p
      in \<lparr>acc_n = Suc (acc_n a), acc_x = axis_add (acc_x a) x, acc_y = axis_add (acc_y a) y,
          acc_z = axis_add (acc_z a) z\<rparr>)"

definition box_density :: "nat \<Rightarrow> real \<Rightarrow> flt" where
  "box_density n vol = (if vol = 0 then PInf else Fin (real n / vol))"

definition acc_finish :: "Acc \<Rightarrow> CharacteristicsVector" where
  "acc_finish a =
     (let n = real (acc_n a);
          ex = hi (acc_x a) - lo (acc_x a); ey = hi (acc_y a) - lo (acc_y a);
          ez = hi (acc_z a) - lo (acc_z a)
      in \<lparr>cv_count = acc_n a,
          cv_centroid = (total (acc_x a) / n, total (acc_y a) / n, total (acc_z a) / n),
          cv_extent = (ex, ey, ez),
          cv_density = box_density (acc_n a) (ex * ey * ez)\<rparr>)"

definition characteristics :: "Point list \<Rightarrow> CharacteristicsVector" where
  "characteristics ps =
     (case ps of [] \<Rightarrow> cv_empty | p # rest \<Rightarrow> acc_finish (foldl acc_add (acc_init p) rest))"

definition axis_spec :: "real list \<Rightarrow> real \<times> real" where
  "axis_spec vs = (sum_list vs / real (length vs), Max (set vs) - Min (set vs))"

definition characteristics_spec :: "Point list \<Rightarrow> CharacteristicsVector" where
  "characteristics_spec ps =
     (if ps = [] then cv_empty
      else let (cx, ex) = axis_spec (map (\<lambda>p. fst (coords p)) ps);
               (cy, ey) = axis_spec (map (\<lambda>p. fst (snd (coords p))) ps);
               (cz, ez) = axis_spec (map (\<lambda>p. snd (snd (coords p))) ps)
           in \<lparr>cv_count = length ps, cv_centroid = (cx, cy, cz), cv_extent = (ex, ey, ez),
               cv_density = box_density (length ps) (ex * ey * ez)\<rparr>)"

text \<open>The interface: one constructor per pure virtual method, and the state.\<close>

datatype CharOp = NewPoint Point | NewObject | ExtractCharacteristics

record CharState =
  char_buffer :: "Point list"

definition char_init :: CharState where
  "char_init = \<lparr>char_buffer = []\<rparr>"

definition newPoint :: "Point \<Rightarrow> CharState \<Rightarrow> CharState" where
  "newPoint p st = st\<lparr>char_buffer := char_buffer st @ [p]\<rparr>"

definition newObject :: "CharState \<Rightarrow> CharState" where
  "newObject st = st\<lparr>char_buffer := []\<rparr>"

definition extractCharacteristics :: "CharState \<Rightarrow> CharacteristicsVector \<times> CharState" where
  "extractCharacteristics st = (characteristics (char_buffer st), newObject st)"

fun char_step :: "CharState \<Rightarrow> CharOp \<Rightarrow> CharState \<times> CharacteristicsVector option" where
  "char_step st (NewPoint p) = (newPoint p st, None)"
| "char_step st NewObject = (newObject st, None)"
| "char_step st ExtractCharacteristics =
     (let (cv, st') = extractCharacteristics st in (st', Some cv))"

fun char_run :: "CharState \<Rightarrow> CharOp list \<Rightarrow> CharState \<times> CharacteristicsVector list" where
  "char_run st [] = (st, [])"
| "char_run st (op # ops) =
     (let (st1, r) = char_step st op; (st2, rs) = char_run st1 ops
      in (st2, (case r of None \<Rightarrow> rs | Some cv \<Rightarrow> cv # rs)))"

lemma Min_insert_min: "finite S \<Longrightarrow> Min (insert (min a v) S) = Min (insert a (insert v S))"
  by (cases "S = {}") (simp_all add: min.assoc)

lemma Max_insert_max: "finite S \<Longrightarrow> Max (insert (max a v) S) = Max (insert a (insert v S))"
  by (cases "S = {}") (simp_all add: max.assoc)

lemma axis_fold:
  "lo (foldl axis_add a vs) = Min (insert (lo a) (set vs)) \<and>
   hi (foldl axis_add a vs) = Max (insert (hi a) (set vs)) \<and>
   total (foldl axis_add a vs) = total a + sum_list vs"
proof (induction vs arbitrary: a)
  case Nil
  then show ?case by simp
next
  case (Cons v vs)
  have "Min (insert (min (lo a) v) (set vs)) = Min (insert (lo a) (set (v # vs)))"
    by (simp add: Min_insert_min)
  moreover have "Max (insert (max (hi a) v) (set vs)) = Max (insert (hi a) (set (v # vs)))"
    by (simp add: Max_insert_max)
  ultimately show ?case using Cons.IH [of "axis_add a v"] by (simp add: axis_add_def algebra_simps)
qed

lemma acc_fold:
  "acc_n (foldl acc_add a ps) = acc_n a + length ps \<and>
   acc_x (foldl acc_add a ps) = foldl axis_add (acc_x a) (map (\<lambda>p. fst (coords p)) ps) \<and>
   acc_y (foldl acc_add a ps) = foldl axis_add (acc_y a) (map (\<lambda>p. fst (snd (coords p))) ps) \<and>
   acc_z (foldl acc_add a ps) = foldl axis_add (acc_z a) (map (\<lambda>p. snd (snd (coords p))) ps)"
  by (induction ps arbitrary: a) (auto simp: acc_add_def split: prod.splits)

lemma characteristics_one_pass: "characteristics ps = characteristics_spec ps"
proof (cases ps)
  case Nil
  then show ?thesis by (simp add: characteristics_def characteristics_spec_def)
next
  case (Cons p rest)
  obtain x y z where c: "coords p = (x, y, z)" by (cases "coords p") auto
  show ?thesis
    using acc_fold [of "acc_init p" rest] c Cons
      axis_fold [of "axis_init x"] axis_fold [of "axis_init y"] axis_fold [of "axis_init z"]
    by (simp add: characteristics_def characteristics_spec_def acc_finish_def acc_init_def
        axis_init_def axis_spec_def Let_def)
qed

lemma char_run_new_points:
  "char_run st (map NewPoint ps @ ops) = char_run (st\<lparr>char_buffer := char_buffer st @ ps\<rparr>) ops"
  by (induction ps arbitrary: st) (simp_all add: newPoint_def)

lemma char_run_frame:
  "char_run st (map NewPoint ps @ [ExtractCharacteristics]) =
     (st\<lparr>char_buffer := []\<rparr>, [characteristics (char_buffer st @ ps)])"
  by (simp add: char_run_new_points extractCharacteristics_def newObject_def)

lemma char_run_append:
  "char_run st (xs @ ys) =
     (let (st1, r1) = char_run st xs; (st2, r2) = char_run st1 ys in (st2, r1 @ r2))"
proof (induction xs arbitrary: st)
  case Nil
  then show ?case by (simp split: prod.splits)
next
  case (Cons op xs)
  then show ?case by (cases "char_step st op") (auto split: prod.splits option.splits)
qed

lemma char_run_object:
  "char_run st (NewObject # map NewPoint ps @ [ExtractCharacteristics]) =
     (st\<lparr>char_buffer := []\<rparr>, [characteristics ps])"
  using char_run_frame [of "st\<lparr>char_buffer := []\<rparr>" ps] by (simp add: newObject_def)

text \<open>C12. Equivalence of the one-pass extraction with its reference: the vector
  \<open>extractCharacteristics\<close> returns, computed with running min, max and sum per
  axis, is the count, centroid, extents and density given by \<open>Min\<close>, \<open>Max\<close> and
  \<open>sum_list\<close> over the buffer.\<close>

theorem characteristics_eq_spec:
  "fst (extractCharacteristics st) = characteristics_spec (char_buffer st)"
  by (simp add: extractCharacteristics_def characteristics_one_pass)

text \<open>C14. \<open>newObject\<close> discards the buffered object: whatever operations came
  before, \<open>newObject\<close>, then \<open>newPoint\<close> for each point of a list, then
  \<open>extractCharacteristics\<close> yields the characteristics of exactly those points.\<close>

theorem newObject_discards:
  "snd (char_run st (ops @ NewObject # map NewPoint ps @ [ExtractCharacteristics])) =
     snd (char_run st ops) @ [characteristics ps]"
proof -
  obtain s1 r1 where r: "char_run st ops = (s1, r1)" by (cases "char_run st ops")
  show ?thesis
    using char_run_append [of st ops "NewObject # map NewPoint ps @ [ExtractCharacteristics]"]
      char_run_object [of s1 ps] r
    by (simp del: char_run.simps)
qed

text \<open>C32. N identical points (N > 0) fed through the interface give count N, the point
  itself as centroid, zero extents and the density \<open>+inf\<close>: a zero bounding volume
  is handled without a division error (spec section 8).\<close>

theorem characteristics_identical:
  assumes "0 < n"
  shows "char_run st (NewObject # replicate n (NewPoint p) @ [ExtractCharacteristics]) =
           (st\<lparr>char_buffer := []\<rparr>,
            [\<lparr>cv_count = n, cv_centroid = coords p, cv_extent = (0, 0, 0), cv_density = PInf\<rparr>])"
proof -
  obtain x y z where c: "coords p = (x, y, z)" by (cases "coords p") auto
  have "replicate n p \<noteq> []" using assms by simp
  moreover have "sum_list (replicate n v) / real n = v" for v :: real
    using assms by (simp add: sum_list_replicate)
  ultimately have "characteristics (replicate n p) =
      \<lparr>cv_count = n, cv_centroid = coords p, cv_extent = (0, 0, 0), cv_density = PInf\<rparr>"
    using assms c by (simp add: characteristics_one_pass characteristics_spec_def axis_spec_def
        box_density_def Let_def)
  with char_run_object [of st "replicate n p"] show ?thesis by simp
qed

theorem characteristics_identical_witness:
  "char_run char_init (NewObject # replicate 3 (NewPoint (mk_point 1 2 3 50 7)) @ [ExtractCharacteristics]) =
     (char_init, [\<lparr>cv_count = 3, cv_centroid = (1, 2, 3), cv_extent = (0, 0, 0), cv_density = PInf\<rparr>])"
  using characteristics_identical [of 3 char_init "mk_point 1 2 3 50 7"] by (simp add: char_init_def)

end
