(* ===== verification/AnomalyDetector.thy ===== *)
theory AnomalyDetector
  imports ObjectCharacterizer
begin

text \<open>
  Anomaly Detector: the capability \<open>IAnomalyDetector\<close> of
  src/include/anomaly_detection/IAnomalyDetector.hh (\<open>loadModels\<close>, \<open>getModels\<close>,
  \<open>setModel\<close>, \<open>compare\<close>) with the behaviour spec section 4.4 gives it.  The
  state is the active model set and the results delivered to the sink (\<open>compare\<close>
  returns \<open>void\<close> in the interface, so its result is a side effect).  The model
  repository is a parameter: a function from paths to model sets, \<open>None\<close> for an
  unreadable or malformed path.

  The distance between two characteristics vectors is the sum of the absolute
  feature differences (count, centroid, extents) plus the difference of the
  densities; two infinite densities differ by 0 and a finite and an infinite one make
  the distance infinite.  \<open>best_match\<close> picks the first model of least distance;
  \<open>compare_models\<close> reports it and flags an anomaly when its distance exceeds its
  threshold, or when no model is loaded.
\<close>

record Model =
  model_label :: string
  model_reference :: CharacteristicsVector
  model_threshold :: real

record AnomalyResult =
  matched :: "string option"
  score :: flt
  is_anomaly :: bool

datatype ModelLoadError = ModelLoadError

type_synonym ModelRepository = "string \<Rightarrow> Model list option"

definition l1_3 :: "real \<times> real \<times> real \<Rightarrow> real \<times> real \<times> real \<Rightarrow> real" where
  "l1_3 a b =
     \<bar>fst a - fst b\<bar> + \<bar>fst (snd a) - fst (snd b)\<bar> + \<bar>snd (snd a) - snd (snd b)\<bar>"

fun density_gap :: "flt \<Rightarrow> flt \<Rightarrow> flt" where
  "density_gap (Fin a) (Fin b) = Fin \<bar>a - b\<bar>"
| "density_gap PInf PInf = Fin 0"
| "density_gap _ _ = PInf"

definition cv_distance :: "CharacteristicsVector \<Rightarrow> CharacteristicsVector \<Rightarrow> flt" where
  "cv_distance a b =
     (let d = \<bar>real (cv_count a) - real (cv_count b)\<bar> + l1_3 (cv_centroid a) (cv_centroid b)
              + l1_3 (cv_extent a) (cv_extent b)
      in case density_gap (cv_density a) (cv_density b) of Fin g \<Rightarrow> Fin (d + g) | _ \<Rightarrow> PInf)"

fun best_match :: "CharacteristicsVector \<Rightarrow> Model list \<Rightarrow> (Model \<times> flt) option" where
  "best_match cv [] = None"
| "best_match cv (m # ms) =
     (let d = cv_distance cv (model_reference m)
      in case best_match cv ms of
           None \<Rightarrow> Some (m, d)
         | Some (m', d') \<Rightarrow> (if flt_less d' d then Some (m', d') else Some (m, d)))"

definition compare_models :: "Model list \<Rightarrow> CharacteristicsVector \<Rightarrow> AnomalyResult" where
  "compare_models ms cv =
     (case best_match cv ms of
        None \<Rightarrow> \<lparr>matched = None, score = PInf, is_anomaly = True\<rparr>
      | Some (m, d) \<Rightarrow>
          \<lparr>matched = Some (model_label m), score = d,
           is_anomaly = flt_less (Fin (model_threshold m)) d\<rparr>)"

text \<open>The interface: one constructor per pure virtual method, and the state.\<close>

datatype DetectorOp =
    LoadModels string
  | GetModels
  | SetModel Model
  | Compare CharacteristicsVector

record DetectorState =
  models :: "Model list"
  results :: "AnomalyResult list"

definition detector_init :: DetectorState where
  "detector_init = \<lparr>models = [], results = []\<rparr>"

definition loadModels ::
  "ModelRepository \<Rightarrow> string \<Rightarrow> DetectorState \<Rightarrow> (ModelLoadError + unit) \<times> DetectorState" where
  "loadModels repo path st =
     (case repo path of
        None \<Rightarrow> (Inl ModelLoadError, st)
      | Some ms \<Rightarrow> (Inr (), st\<lparr>models := ms\<rparr>))"

definition getModels :: "DetectorState \<Rightarrow> Model list" where
  "getModels st = models st"

definition upsert_model :: "Model \<Rightarrow> Model list \<Rightarrow> Model list" where
  "upsert_model m ms =
     (if model_label m \<in> set (map model_label ms)
      then map (\<lambda>m'. if model_label m' = model_label m then m else m') ms
      else ms @ [m])"

definition setModel :: "Model \<Rightarrow> DetectorState \<Rightarrow> DetectorState" where
  "setModel m st = st\<lparr>models := upsert_model m (models st)\<rparr>"

definition compare :: "CharacteristicsVector \<Rightarrow> DetectorState \<Rightarrow> DetectorState" where
  "compare cv st = st\<lparr>results := results st @ [compare_models (models st) cv]\<rparr>"

datatype DetectorReply = Done | LoadFailed ModelLoadError | ModelSet "Model list"

definition box_model :: Model where
  "box_model = \<lparr>model_label = ''box'', model_reference = cv_empty, model_threshold = 1\<rparr>"

fun detector_step ::
  "ModelRepository \<Rightarrow> DetectorState \<Rightarrow> DetectorOp \<Rightarrow> DetectorState \<times> DetectorReply" where
  "detector_step repo st (LoadModels path) =
     (case loadModels repo path st of
        (Inl e, st') \<Rightarrow> (st', LoadFailed e)
      | (Inr _, st') \<Rightarrow> (st', Done))"
| "detector_step repo st GetModels = (st, ModelSet (getModels st))"
| "detector_step repo st (SetModel m) = (setModel m st, Done)"
| "detector_step repo st (Compare cv) = (compare cv st, Done)"

lemma cv_distance_ordered: "cv_distance a b \<noteq> NaN"
  by (auto simp: cv_distance_def Let_def split: flt.splits)

lemma best_match_None [simp]: "best_match cv ms = None \<longleftrightarrow> ms = []"
  by (cases ms) (auto simp: Let_def split: option.splits)

lemma best_match_Some:
  "best_match cv ms = Some (m, d) \<Longrightarrow>
     m \<in> set ms \<and> d = cv_distance cv (model_reference m) \<and>
     (\<forall>m' \<in> set ms. \<not> flt_less (cv_distance cv (model_reference m')) d)"
proof (induction ms arbitrary: m d)
  case Nil
  then show ?case by simp
next
  case (Cons m0 ms)
  let ?d0 = "cv_distance cv (model_reference m0)"
  show ?case
  proof (cases "best_match cv ms")
    case None
    with Cons.prems show ?thesis by auto
  next
    case (Some r)
    obtain m1 d1 where r: "r = (m1, d1)" by (cases r)
    from Cons.IH [of m1 d1] Some r have IH:
      "m1 \<in> set ms" "d1 = cv_distance cv (model_reference m1)"
      "\<forall>m' \<in> set ms. \<not> flt_less (cv_distance cv (model_reference m')) d1" by auto
    show ?thesis
    proof (cases "flt_less d1 ?d0")
      case True
      with Cons.prems Some r IH show ?thesis by (auto dest: flt_less_trans)
    next
      case False
      with Cons.prems Some r IH show ?thesis
        using flt_less_total [OF cv_distance_ordered cv_distance_ordered, of cv "model_reference m1" cv "model_reference m0"]
        by (auto dest: flt_less_trans)
    qed
  qed
qed

text \<open>C13. \<open>compare\<close> against a non-empty model set delivers one result: a model
  of least distance (no loaded model is strictly closer), its distance as the score, and
  an anomaly exactly when that distance exceeds the model's threshold.\<close>

theorem compare_best:
  assumes "getModels st \<noteq> []"
  shows "\<exists>m \<in> set (getModels st).
     results (compare cv st) = results st @
       [\<lparr>matched = Some (model_label m), score = cv_distance cv (model_reference m),
         is_anomaly = flt_less (Fin (model_threshold m)) (cv_distance cv (model_reference m))\<rparr>] \<and>
     (\<forall>m' \<in> set (getModels st). \<not> flt_less (cv_distance cv (model_reference m')) (cv_distance cv (model_reference m)))"
proof -
  from assms obtain m d where b: "best_match cv (models st) = Some (m, d)"
    by (cases "best_match cv (models st)") (auto simp: getModels_def)
  from best_match_Some [OF b] b show ?thesis
    by (auto simp: compare_def compare_models_def getModels_def)
qed

lemma upsert_labels: "model_label ` set (upsert_model m ms) = insert (model_label m) (model_label ` set ms)"
  by (auto simp: upsert_model_def)

lemma map_label_replace:
  "model_label m = l \<Longrightarrow>
   map model_label (map (\<lambda>m'. if model_label m' = l then m else m') ms) = map model_label ms"
  by (induction ms) auto

lemma upsert_distinct:
  "distinct (map model_label ms) \<Longrightarrow> distinct (map model_label (upsert_model m ms))"
  by (auto simp: upsert_model_def map_label_replace [of m "model_label m"] simp del: map_map)

text \<open>C33. \<open>setModel\<close> adds or replaces the model with the given label: labels
  stay unique, the new model is active, and every model with another label is kept.\<close>

theorem setModel_upsert:
  assumes "distinct (map model_label (models st))"
  shows "distinct (map model_label (getModels (setModel m st))) \<and> m \<in> set (getModels (setModel m st)) \<and>
         (\<forall>m' \<in> set (getModels st). model_label m' \<noteq> model_label m \<longrightarrow> m' \<in> set (getModels (setModel m st)))"
  using upsert_distinct [OF assms, of m]
  by (auto simp: setModel_def getModels_def upsert_model_def image_iff)


theorem setModel_upsert_witness:
  "box_model \<in> set (getModels (setModel box_model detector_init))"
  using setModel_upsert [of detector_init box_model] by (simp add: detector_init_def)

theorem compare_best_witness:
  "results (compare cv_empty (detector_init\<lparr>models := [box_model]\<rparr>)) =
     [\<lparr>matched = Some ''box'', score = Fin 0, is_anomaly = False\<rparr>]"
proof -
  have "getModels (detector_init\<lparr>models := [box_model]\<rparr>) \<noteq> []" by (simp add: getModels_def)
  from compare_best [OF this, of cv_empty] show ?thesis
    by (simp add: getModels_def detector_init_def box_model_def cv_distance_def l1_3_def cv_empty_def)
qed

end
