(* ===== verification/Pipeline.thy ===== *)
theory Pipeline
  imports FrameAggregator AnomalyDetector
begin

text \<open>
  The whole pipeline (spec sections 2 and 5): the ingestion thread runs the
  Background Filter, the Frame Aggregator and the Object Characterizer synchronously
  for each point or timer tick and posts every characteristics vector to the handoff
  queue; the detection thread takes items from the queue one at a time and compares
  them against a snapshot of the model set taken when the comparison starts;
  \<open>setModel\<close> and \<open>loadModels\<close> may happen at any time before the end.  A closed
  frame is handed to the characterizer through its interface, as the operations
  \<open>newPoint\<close> for each point followed by \<open>extractCharacteristics\<close>.

  The queue is bounded by \<open>queue_cap\<close> (\<open>None\<close> for unbounded): a push onto a
  full queue drops the oldest item, and dropped vectors are counted.  Shutdown closes
  the open frame, posts its vector and a sentinel; the detection thread stops when it
  takes the sentinel, and the join ends the lifecycle
  \<open>Running \<rightarrow> Draining \<rightarrow> Stopped\<close>.  Timestamps are monotonic (spec section 3):
  a point or tick never goes back before the clock.

  The fields \<open>candidates\<close>, \<open>dispatched\<close>, \<open>pushed\<close> and \<open>processed\<close> are history
  variables of the model (not program state): the Candidate points in arrival order,
  the frames handed to the characterizer, the vectors posted and the vectors compared.
\<close>

record PipeConfig =
  frame_time_cfg :: u32
  bg_cfg :: BgConfig
  queue_cap :: "nat option"
  repository :: ModelRepository

datatype QItem = Vec CharacteristicsVector | Sentinel

datatype Lifecycle = Running | Draining | Stopped

datatype Worker = WIdle | Comparing CharacteristicsVector "Model list" | Exited

record System =
  clock :: msec
  bg :: BgState
  agg :: FrameState
  chr :: CharState
  det :: DetectorState
  queue :: "QItem list"
  dropped :: nat
  life :: Lifecycle
  worker :: Worker
  candidates :: "Point list"
  dispatched :: "Frame list"
  pushed :: "CharacteristicsVector list"
  processed :: "CharacteristicsVector list"

definition sys_init :: System where
  "sys_init =
     \<lparr>clock = 0, bg = bg_init, agg = Idle, chr = char_init, det = detector_init, queue = [],
      dropped = 0, life = Running, worker = WIdle, candidates = [], dispatched = [], pushed = [],
      processed = []\<rparr>"

text \<open>Push onto the bounded queue: the new queue and the dropped item, if any.\<close>

definition enqueue :: "nat option \<Rightarrow> QItem \<Rightarrow> QItem list \<Rightarrow> QItem list \<times> QItem option" where
  "enqueue cap x q =
     (let q' = q @ [x]
      in case cap of
           None \<Rightarrow> (q', None)
         | Some c \<Rightarrow> (if length q' \<le> c then (q', None) else (tl q', Some (hd q'))))"

fun drop_count :: "QItem option \<Rightarrow> nat" where
  "drop_count (Some (Vec _)) = 1"
| "drop_count _ = 0"

definition push_item :: "PipeConfig \<Rightarrow> QItem \<Rightarrow> System \<Rightarrow> System" where
  "push_item cfg x s =
     (let (q, d) = enqueue (queue_cap cfg) x (queue s)
      in s\<lparr>queue := q, dropped := dropped s + drop_count d,
           pushed := pushed s @ (case x of Vec cv \<Rightarrow> [cv] | Sentinel \<Rightarrow> [])\<rparr>)"

definition frame_ops :: "Frame \<Rightarrow> CharOp list" where
  "frame_ops f = map NewPoint (frame_points f) @ [ExtractCharacteristics]"

definition dispatch_frame :: "PipeConfig \<Rightarrow> System \<Rightarrow> Frame \<Rightarrow> System" where
  "dispatch_frame cfg s f =
     (let (st, cvs) = char_run (chr s) (frame_ops f)
      in fold (\<lambda>cv. push_item cfg (Vec cv)) cvs (s\<lparr>chr := st, dispatched := dispatched s @ [f]\<rparr>))"

definition dispatch_all :: "PipeConfig \<Rightarrow> Frame list \<Rightarrow> System \<Rightarrow> System" where
  "dispatch_all cfg fs s = foldl (dispatch_frame cfg) s fs"

definition ingest :: "PipeConfig \<Rightarrow> Point \<Rightarrow> System \<Rightarrow> System" where
  "ingest cfg p s =
     (let (c, bg') = classify (bg_cfg cfg) (bg s) p;
          (agg', fs) = on_point (frame_time_cfg cfg) c p (agg s)
      in dispatch_all cfg fs
           (s\<lparr>clock := timestamp p, bg := bg', agg := agg',
              candidates := candidates s @ (if c = Candidate then [p] else [])\<rparr>))"

definition tick :: "PipeConfig \<Rightarrow> msec \<Rightarrow> System \<Rightarrow> System" where
  "tick cfg now s =
     (let (agg', fs) = on_tick (frame_time_cfg cfg) now (agg s)
      in dispatch_all cfg fs (s\<lparr>clock := now, agg := agg'\<rparr>))"

definition shutdown :: "PipeConfig \<Rightarrow> System \<Rightarrow> System" where
  "shutdown cfg s =
     (let s1 = dispatch_all cfg (force_close (agg s)) (s\<lparr>agg := Idle\<rparr>)
      in (push_item cfg Sentinel s1)\<lparr>life := Draining\<rparr>)"

definition take_item :: "System \<Rightarrow> System" where
  "take_item s =
     (case queue s of
        [] \<Rightarrow> s
      | Vec cv # q \<Rightarrow> s\<lparr>queue := q, worker := Comparing cv (getModels (det s))\<rparr>
      | Sentinel # q \<Rightarrow> s\<lparr>queue := q, worker := Exited\<rparr>)"

definition finish_compare :: "System \<Rightarrow> System" where
  "finish_compare s =
     (case worker s of
        Comparing cv ms \<Rightarrow>
          s\<lparr>det := (det s)\<lparr>results := results (det s) @ [compare_models ms cv]\<rparr>,
            worker := WIdle, processed := processed s @ [cv]\<rparr>
      | _ \<Rightarrow> s)"

inductive sys_step :: "PipeConfig \<Rightarrow> System \<Rightarrow> System \<Rightarrow> bool" for cfg where
  ingest_point: "life s = Running \<Longrightarrow> clock s \<le> timestamp p \<Longrightarrow> sys_step cfg s (ingest cfg p s)"
| timer_tick: "life s = Running \<Longrightarrow> clock s \<le> now \<Longrightarrow> sys_step cfg s (tick cfg now s)"
| take: "worker s = WIdle \<Longrightarrow> queue s \<noteq> [] \<Longrightarrow> sys_step cfg s (take_item s)"
| finish: "worker s = Comparing cv ms \<Longrightarrow> sys_step cfg s (finish_compare s)"
| set_model: "life s \<noteq> Stopped \<Longrightarrow> sys_step cfg s (s\<lparr>det := setModel m (det s)\<rparr>)"
| load_models: "life s \<noteq> Stopped \<Longrightarrow>
     sys_step cfg s (s\<lparr>det := snd (loadModels (repository cfg) path (det s))\<rparr>)"
| stop: "life s = Running \<Longrightarrow> sys_step cfg s (shutdown cfg s)"
| join: "life s = Draining \<Longrightarrow> worker s = Exited \<Longrightarrow> sys_step cfg s (s\<lparr>life := Stopped\<rparr>)"

inductive reachable :: "PipeConfig \<Rightarrow> System \<Rightarrow> bool" for cfg where
  init: "reachable cfg sys_init"
| step: "reachable cfg s \<Longrightarrow> sys_step cfg s s' \<Longrightarrow> reachable cfg s'"

fun vecs :: "QItem list \<Rightarrow> CharacteristicsVector list" where
  "vecs [] = []"
| "vecs (Vec cv # q) = cv # vecs q"
| "vecs (Sentinel # q) = vecs q"

fun inflight :: "Worker \<Rightarrow> CharacteristicsVector list" where
  "inflight (Comparing cv ms) = [cv]"
| "inflight _ = []"

text \<open>
  The detection thread's loop as the code would run it once no more items are pushed:
  pop the next item; on the sentinel stop, on a vector compare it and loop; on an
  empty queue the pop blocks, so the loop does not return.  It is a
  \<open>partial_function (option)\<close>: not returning is the value \<open>None\<close>.
\<close>

partial_function (option) detection_loop :: "System \<Rightarrow> System option" where
  "detection_loop s =
     (case queue s of
        [] \<Rightarrow> detection_loop s
      | Sentinel # q \<Rightarrow> Some (take_item s)
      | Vec cv # q \<Rightarrow> detection_loop (finish_compare (take_item s)))"

lemma push_item_same [simp]:
  "candidates (push_item cfg x s) = candidates s" "dispatched (push_item cfg x s) = dispatched s"
  "agg (push_item cfg x s) = agg s" "chr (push_item cfg x s) = chr s" "clock (push_item cfg x s) = clock s"
  "bg (push_item cfg x s) = bg s" "det (push_item cfg x s) = det s" "life (push_item cfg x s) = life s"
  "worker (push_item cfg x s) = worker s" "processed (push_item cfg x s) = processed s"
  by (simp_all add: push_item_def split: prod.splits)

lemma push_item_pushed:
  "pushed (push_item cfg x s) = pushed s @ (case x of Vec cv \<Rightarrow> [cv] | Sentinel \<Rightarrow> [])"
  by (simp add: push_item_def split: prod.splits)

lemma push_vecs_same:
  "P (fold (\<lambda>cv. push_item cfg (Vec cv)) cvs s) = P s"
  if "\<And>x s. P (push_item cfg x s) = P s" for P :: "System \<Rightarrow> 'a"
  using that by (induction cvs arbitrary: s) auto

lemma push_vecs_pushed:
  "pushed (fold (\<lambda>cv. push_item cfg (Vec cv)) cvs s) = pushed s @ cvs"
  by (induction cvs arbitrary: s) (simp_all add: push_item_pushed)

lemma dispatch_frame_effect:
  "dispatched (dispatch_frame cfg s f) = dispatched s @ [f] \<and>
   char_buffer (chr (dispatch_frame cfg s f)) = [] \<and>
   pushed (dispatch_frame cfg s f) = pushed s @ [characteristics (char_buffer (chr s) @ frame_points f)] \<and>
   candidates (dispatch_frame cfg s f) = candidates s \<and> agg (dispatch_frame cfg s f) = agg s \<and>
   clock (dispatch_frame cfg s f) = clock s \<and> life (dispatch_frame cfg s f) = life s \<and>
   bg (dispatch_frame cfg s f) = bg s \<and> det (dispatch_frame cfg s f) = det s"
  by (simp add: dispatch_frame_def frame_ops_def char_run_frame push_vecs_pushed push_item_pushed
      push_vecs_same [where P = dispatched] push_vecs_same [where P = chr]
      push_vecs_same [where P = candidates] push_vecs_same [where P = agg]
      push_vecs_same [where P = clock] push_vecs_same [where P = life]
      push_vecs_same [where P = bg] push_vecs_same [where P = det])

lemma dispatch_all_effect:
  assumes "char_buffer (chr s) = []"
  shows "dispatched (dispatch_all cfg fs s) = dispatched s @ fs \<and>
   char_buffer (chr (dispatch_all cfg fs s)) = [] \<and>
   pushed (dispatch_all cfg fs s) = pushed s @ map (\<lambda>f. characteristics (frame_points f)) fs \<and>
   candidates (dispatch_all cfg fs s) = candidates s \<and> agg (dispatch_all cfg fs s) = agg s \<and>
   clock (dispatch_all cfg fs s) = clock s \<and> life (dispatch_all cfg fs s) = life s \<and>
   bg (dispatch_all cfg fs s) = bg s \<and> det (dispatch_all cfg fs s) = det s"
  using assms unfolding dispatch_all_def
proof (induction fs arbitrary: s)
  case Nil
  then show ?case by simp
next
  case (Cons f fs)
  from Cons.prems have "char_buffer (chr (dispatch_frame cfg s f)) = []"
    by (simp add: dispatch_frame_effect)
  from Cons.IH [OF this] Cons.prems show ?case by (simp add: dispatch_frame_effect)
qed

lemma vecs_append [simp]: "vecs (xs @ ys) = vecs xs @ vecs ys"
  by (induction xs rule: vecs.induct) auto

lemma vecs_single: "vecs [x] = (case x of Vec cv \<Rightarrow> [cv] | Sentinel \<Rightarrow> [])"
  by (cases x) auto

lemma vecs_tl: "subseq (vecs (tl xs)) (vecs xs) \<and> length (vecs (tl xs)) + drop_count (Some (hd xs)) = length (vecs xs)"
  if "xs \<noteq> []"
  using that by (cases xs rule: vecs.cases) auto

lemma results_setModel [simp]: "results (setModel m d) = results d"
  by (simp add: setModel_def)

lemma results_loadModels [simp]: "results (snd (loadModels r path d)) = results d"
  by (simp add: loadModels_def split: option.splits)

lemma detection_loop_returns_sentinel:
  "detection_loop s = Some s' \<Longrightarrow> Sentinel \<in> set (queue s)"
proof (induction arbitrary: s s' rule: detection_loop.fixp_induct)
  case 1
  show ?case by (rule option_admissible)
next
  case 2
  then show ?case by simp
next
  case (3 f)
  show ?case
  proof (cases "queue s" rule: vecs.cases)
    case 1
    with "3.prems" "3.IH" [of s s'] show ?thesis by simp
  next
    case (2 cv q)
    with "3.prems" "3.IH" [of "finish_compare (take_item s)" s'] show ?thesis
      by (simp add: take_item_def finish_compare_def)
  next
    case (3 q)
    then show ?thesis by simp
  qed
qed

lemma detection_loop_sentinel:
  "Sentinel \<in> set (queue s) \<Longrightarrow>
   \<exists>s'. detection_loop s = Some s' \<and> worker s' = Exited \<and>
     queue s' = tl (dropWhile (\<lambda>x. x \<noteq> Sentinel) (queue s)) \<and>
     processed s' = processed s @ vecs (takeWhile (\<lambda>x. x \<noteq> Sentinel) (queue s)) \<and>
     results (det s') = results (det s) @
       map (compare_models (getModels (det s))) (vecs (takeWhile (\<lambda>x. x \<noteq> Sentinel) (queue s)))"
proof (induction "queue s" arbitrary: s)
  case Nil
  then show ?case by simp
next
  case (Cons x q)
  show ?case
  proof (cases x)
    case Sentinel
    with Cons.hyps(2) [symmetric] show ?thesis
      by (simp add: detection_loop.simps [of s] take_item_def)
  next
    case (Vec cv)
    let ?s1 = "finish_compare (take_item s)"
    have q1: "queue ?s1 = q" and "Sentinel \<in> set q"
      using Cons.hyps(2) [symmetric] Cons.prems Vec by (auto simp: take_item_def finish_compare_def)
    then have "Sentinel \<in> set (queue ?s1)" using q1 by simp
    from Cons.hyps(1) [OF q1 [symmetric] this] q1 obtain s' where
      "detection_loop ?s1 = Some s'" "worker s' = Exited"
      "queue s' = tl (dropWhile (\<lambda>x. x \<noteq> Sentinel) q)"
      "processed s' = processed ?s1 @ vecs (takeWhile (\<lambda>x. x \<noteq> Sentinel) q)"
      "results (det s') = results (det ?s1) @
         map (compare_models (getModels (det ?s1))) (vecs (takeWhile (\<lambda>x. x \<noteq> Sentinel) q))"
      by auto
    with Cons.hyps(2) [symmetric] Vec show ?thesis
      by (simp add: detection_loop.simps [of s] take_item_def finish_compare_def getModels_def)
  qed
qed

end
