(* ===== verification/PipelineInvariants.thy ===== *)
theory PipelineInvariants
  imports Pipeline
begin

text \<open>
  Invariants of the pipeline, each preserved by every rule of \<open>sys_step\<close> and so,
  by rule induction over \<open>reachable\<close>, true in every reachable state:
  \<^item> \<open>inv_frames\<close>: the dispatched frames and the open frame together hold exactly
    the Candidate points, in order, every dispatched frame is well formed, and the
    vectors pushed are the characteristics of the dispatched frames;
  \<^item> \<open>inv_queue\<close>: the vectors compared, in flight and queued form a subsequence of
    those pushed, every pushed vector is accounted for, the bound holds, and there is
    one result per compared vector;
  \<^item> \<open>inv_life\<close>: how the lifecycle, the queue's sentinel and the worker agree.
\<close>

definition inv_frames :: "PipeConfig \<Rightarrow> System \<Rightarrow> bool" where
  "inv_frames cfg s \<longleftrightarrow>
     concat (map frame_points (dispatched s)) @ open_points (agg s) = candidates s \<and>
     (\<forall>p \<in> set (candidates s). point_finite p) \<and>
     agg_ok (frame_time_cfg cfg) (clock s) (agg s) \<and>
     (\<forall>f \<in> set (dispatched s). frame_ok (frame_time_cfg cfg) (clock s) f) \<and>
     char_buffer (chr s) = [] \<and>
     pushed s = map (\<lambda>f. characteristics (frame_points f)) (dispatched s)"

definition inv_queue :: "PipeConfig \<Rightarrow> System \<Rightarrow> bool" where
  "inv_queue cfg s \<longleftrightarrow>
     subseq (processed s @ inflight (worker s) @ vecs (queue s)) (pushed s) \<and>
     length (pushed s) = length (processed s) + length (inflight (worker s)) + length (vecs (queue s)) + dropped s \<and>
     (\<forall>c. queue_cap cfg = Some c \<longrightarrow> length (queue s) \<le> c) \<and>
     length (results (det s)) = length (processed s)"

definition cap_ok :: "PipeConfig \<Rightarrow> bool" where
  "cap_ok cfg \<longleftrightarrow> queue_cap cfg \<noteq> Some 0"

definition inv_life :: "System \<Rightarrow> bool" where
  "inv_life s \<longleftrightarrow>
     (life s = Running \<longrightarrow> Sentinel \<notin> set (queue s) \<and> worker s \<noteq> Exited) \<and>
     (life s \<noteq> Running \<longrightarrow> agg s = Idle \<and>
        ((worker s = Exited \<and> queue s = []) \<or>
         (worker s \<noteq> Exited \<and> queue s \<noteq> [] \<and> last (queue s) = Sentinel \<and>
          Sentinel \<notin> set (butlast (queue s))))) \<and>
     (life s = Stopped \<longrightarrow> worker s = Exited)"

lemma inv_frames_init: "inv_frames cfg sys_init"
  by (simp add: inv_frames_def sys_init_def char_init_def)

lemma inv_frames_ingest:
  assumes inv: "inv_frames cfg s" and clk: "clock s \<le> timestamp p"
  shows "inv_frames cfg (ingest cfg p s)"
proof -
  obtain c bg' where cl: "classify (bg_cfg cfg) (bg s) p = (c, bg')" by fastforce
  obtain agg' fs where op: "on_point (frame_time_cfg cfg) c p (agg s) = (agg', fs)" by fastforce
  let ?s1 = "s\<lparr>clock := timestamp p, bg := bg', agg := agg',
              candidates := candidates s @ (if c = Candidate then [p] else [])\<rparr>"
  have eq: "ingest cfg p s = dispatch_all cfg fs ?s1" by (simp add: ingest_def cl op)
  from inv have buf: "char_buffer (chr ?s1) = []" by (simp add: inv_frames_def)
  from on_point_points [OF op] have pts:
    "concat (map frame_points fs) @ open_points agg' = open_points (agg s) @ (if c = Candidate then [p] else [])" .
  from inv have aggok: "agg_ok (frame_time_cfg cfg) (clock s) (agg s)" by (simp add: inv_frames_def)
  from on_point_ok [OF op aggok clk] have ok:
    "agg_ok (frame_time_cfg cfg) (timestamp p) agg' \<and> (\<forall>f \<in> set fs. frame_ok (frame_time_cfg cfg) (timestamp p) f)" .
  from cl have fin: "c = Candidate \<Longrightarrow> point_finite p"
    using classify_candidate_finite [of "bg_cfg cfg" "bg s" p] by simp
  show ?thesis
    unfolding eq inv_frames_def using dispatch_all_effect [OF buf, of cfg fs] inv pts ok fin clk
    by (auto simp: inv_frames_def intro: frame_ok_mono)
qed

lemma inv_frames_tick:
  assumes inv: "inv_frames cfg s" and clk: "clock s \<le> now"
  shows "inv_frames cfg (tick cfg now s)"
proof -
  obtain agg' fs where op: "on_tick (frame_time_cfg cfg) now (agg s) = (agg', fs)" by fastforce
  let ?s1 = "s\<lparr>clock := now, agg := agg'\<rparr>"
  have eq: "tick cfg now s = dispatch_all cfg fs ?s1" by (simp add: tick_def op)
  from inv have buf: "char_buffer (chr ?s1) = []" by (simp add: inv_frames_def)
  from on_tick_points [OF op] have pts: "concat (map frame_points fs) @ open_points agg' = open_points (agg s)" .
  from inv have aggok: "agg_ok (frame_time_cfg cfg) (clock s) (agg s)" by (simp add: inv_frames_def)
  from on_tick_ok [OF op aggok clk] have ok:
    "agg_ok (frame_time_cfg cfg) now agg' \<and> (\<forall>f \<in> set fs. frame_ok (frame_time_cfg cfg) now f)" .
  show ?thesis
    unfolding eq inv_frames_def using dispatch_all_effect [OF buf, of cfg fs] inv pts ok clk
    by (auto simp: inv_frames_def intro: frame_ok_mono)
qed

lemma inv_frames_shutdown:
  assumes inv: "inv_frames cfg s"
  shows "inv_frames cfg (shutdown cfg s)"
proof -
  let ?s1 = "dispatch_all cfg (force_close (agg s)) (s\<lparr>agg := Idle\<rparr>)"
  from inv have buf: "char_buffer (chr (s\<lparr>agg := Idle\<rparr>)) = []" by (simp add: inv_frames_def)
  from inv have "agg_ok (frame_time_cfg cfg) (clock s) (agg s)" by (simp add: inv_frames_def)
  then have ok: "\<forall>f \<in> set (force_close (agg s)). frame_ok (frame_time_cfg cfg) (clock s) f"
    by (rule force_close_ok)
  have "inv_frames cfg ?s1"
    unfolding inv_frames_def using dispatch_all_effect [OF buf, of cfg "force_close (agg s)"] inv ok
    by (auto simp: inv_frames_def force_close_points)
  then show ?thesis
    by (simp add: shutdown_def inv_frames_def push_item_pushed)
qed

lemma inv_frames_step: "sys_step cfg s s' \<Longrightarrow> inv_frames cfg s \<Longrightarrow> inv_frames cfg s'"
proof (induction rule: sys_step.induct)
  case (ingest_point s p)
  then show ?case by (blast intro: inv_frames_ingest)
next
  case (timer_tick s now)
  then show ?case by (blast intro: inv_frames_tick)
next
  case (stop s)
  then show ?case by (blast intro: inv_frames_shutdown)
qed (auto simp: inv_frames_def take_item_def finish_compare_def split: list.splits QItem.splits Worker.splits)

lemma reachable_inv_frames: "reachable cfg s \<Longrightarrow> inv_frames cfg s"
  by (induction rule: reachable.induct) (auto intro: inv_frames_init inv_frames_step)

lemma enqueue_props:
  assumes "enqueue cap x q = (q', d)"
  shows "subseq (vecs q') (vecs (q @ [x])) \<and> length (vecs q') + drop_count d = length (vecs (q @ [x])) \<and>
         (\<forall>c. cap = Some c \<longrightarrow> length q \<le> c \<longrightarrow> length q' \<le> c)"
  using assms vecs_tl [of "q @ [x]"]
  by (auto simp: enqueue_def Let_def split: option.splits if_splits simp del: vecs_append)

lemma subseq_prefix_mono: "subseq xs ys \<Longrightarrow> subseq (zs @ xs) (zs @ ys)"
  by (simp add: subseq_append')

lemma inv_queue_push:
  assumes "inv_queue cfg s"
  shows "inv_queue cfg (push_item cfg x s)"
proof -
  obtain q' d where e: "enqueue (queue_cap cfg) x (queue s) = (q', d)" by fastforce
  note props = enqueue_props [OF e]
  let ?new = "(case x of Vec cv \<Rightarrow> [cv] | Sentinel \<Rightarrow> [])"
  from props have "subseq (vecs q') (vecs (queue s) @ ?new)" by (simp add: vecs_single)
  then have "subseq ((processed s @ inflight (worker s)) @ vecs q')
      ((processed s @ inflight (worker s)) @ (vecs (queue s) @ ?new))"
    by (rule subseq_prefix_mono)
  then have "subseq (processed s @ inflight (worker s) @ vecs q')
          (processed s @ inflight (worker s) @ vecs (queue s) @ ?new)"
    by simp
  moreover have "subseq (processed s @ inflight (worker s) @ vecs (queue s) @ ?new) (pushed s @ ?new)"
  proof -
    from assms have "subseq (processed s @ inflight (worker s) @ vecs (queue s)) (pushed s)"
      by (simp add: inv_queue_def)
    from list_emb_append_mono [OF this subseq_order.order_refl [of ?new]] show ?thesis by simp
  qed
  ultimately have "subseq (processed s @ inflight (worker s) @ vecs q') (pushed s @ ?new)"
    by (rule subseq_order.order_trans)
  with assms props show ?thesis
    by (auto simp: inv_queue_def push_item_def e push_item_pushed vecs_single split: QItem.splits)
qed

lemma inv_queue_same:
  "inv_queue cfg s \<Longrightarrow> processed s' = processed s \<Longrightarrow> worker s' = worker s \<Longrightarrow> queue s' = queue s \<Longrightarrow>
   pushed s' = pushed s \<Longrightarrow> dropped s' = dropped s \<Longrightarrow> results (det s') = results (det s) \<Longrightarrow> inv_queue cfg s'"
  by (simp add: inv_queue_def)

lemma inv_queue_pushes: "inv_queue cfg s \<Longrightarrow> inv_queue cfg (fold (\<lambda>cv. push_item cfg (Vec cv)) cvs s)"
  by (induction cvs arbitrary: s) (auto intro: inv_queue_push)

lemma inv_queue_dispatch_all: "inv_queue cfg s \<Longrightarrow> inv_queue cfg (dispatch_all cfg fs s)"
  unfolding dispatch_all_def
proof (induction fs arbitrary: s)
  case (Cons f fs)
  have "inv_queue cfg (dispatch_frame cfg s f)"
    using Cons.prems inv_queue_pushes [of cfg "s\<lparr>chr := fst (char_run (chr s) (frame_ops f)),
        dispatched := dispatched s @ [f]\<rparr>"]
    by (auto simp: dispatch_frame_def inv_queue_def split: prod.splits)
  then show ?case using Cons.IH by simp
qed simp

lemma inv_queue_ingest_fields:
  "inv_queue cfg s \<Longrightarrow> inv_queue cfg (s\<lparr>clock := a, bg := b, agg := c, candidates := d\<rparr>)"
  "inv_queue cfg s \<Longrightarrow> inv_queue cfg (s\<lparr>clock := a, agg := c\<rparr>)"
  "inv_queue cfg s \<Longrightarrow> inv_queue cfg (s\<lparr>agg := c\<rparr>)"
  "inv_queue cfg s \<Longrightarrow> inv_queue cfg (s\<lparr>clock := a, bg := b\<rparr>)"
  "inv_queue cfg s \<Longrightarrow> inv_queue cfg (s\<lparr>clock := a, bg := b, agg := c\<rparr>)"
  "inv_queue cfg s \<Longrightarrow> inv_queue cfg (s\<lparr>clock := a\<rparr>)"
  by (simp_all add: inv_queue_def)

lemma inv_queue_step: "sys_step cfg s s' \<Longrightarrow> inv_queue cfg s \<Longrightarrow> inv_queue cfg s'"
proof (induction rule: sys_step.induct)
  case (ingest_point s p)
  then show ?case
    by (auto simp: ingest_def split: prod.splits intro!: inv_queue_dispatch_all inv_queue_ingest_fields)
next
  case (timer_tick s now)
  then show ?case
    by (auto simp: tick_def split: prod.splits intro!: inv_queue_dispatch_all inv_queue_ingest_fields)
next
  case (take s)
  then show ?case
    by (auto simp: take_item_def inv_queue_def split: list.splits QItem.splits)
next
  case (finish s cv ms)
  then show ?case by (auto simp: finish_compare_def inv_queue_def)
next
  case (stop s)
  then have "inv_queue cfg (dispatch_all cfg (force_close (agg s)) (s\<lparr>agg := Idle\<rparr>))"
    by (auto intro!: inv_queue_dispatch_all inv_queue_ingest_fields)
  then have "inv_queue cfg (push_item cfg Sentinel (dispatch_all cfg (force_close (agg s)) (s\<lparr>agg := Idle\<rparr>)))"
    by (rule inv_queue_push)
  then show ?case by (simp add: shutdown_def inv_queue_def)
qed (auto simp: inv_queue_def)

lemma inv_queue_init: "inv_queue cfg sys_init"
  by (simp add: inv_queue_def sys_init_def detector_init_def)

lemma reachable_inv_queue: "reachable cfg s \<Longrightarrow> inv_queue cfg s"
  by (induction rule: reachable.induct) (auto intro: inv_queue_init inv_queue_step)

lemma set_tl_sub: "set (tl xs) \<subseteq> set xs"
  by (cases xs) auto

lemma enqueue_set: "enqueue cap x q = (q', d) \<Longrightarrow> set q' \<subseteq> set q \<union> {x}"
  using set_tl_sub [of "q @ [x]"] by (auto simp: enqueue_def Let_def split: option.splits if_splits)

lemma push_vec_no_sentinel:
  "Sentinel \<notin> set (queue s) \<Longrightarrow> Sentinel \<notin> set (queue (push_item cfg (Vec cv) s))"
  by (auto simp: push_item_def dest!: enqueue_set split: prod.splits)

lemma pushes_no_sentinel:
  "Sentinel \<notin> set (queue s) \<Longrightarrow> Sentinel \<notin> set (queue (fold (\<lambda>cv. push_item cfg (Vec cv)) cvs s))"
  by (induction cvs arbitrary: s) (auto dest: push_vec_no_sentinel)

lemma dispatch_all_no_sentinel:
  "Sentinel \<notin> set (queue s) \<Longrightarrow> Sentinel \<notin> set (queue (dispatch_all cfg fs s)) \<and>
   worker (dispatch_all cfg fs s) = worker s \<and> agg (dispatch_all cfg fs s) = agg s \<and>
   life (dispatch_all cfg fs s) = life s"
  unfolding dispatch_all_def
proof (induction fs arbitrary: s)
  case (Cons f fs)
  have "Sentinel \<notin> set (queue (dispatch_frame cfg s f)) \<and> worker (dispatch_frame cfg s f) = worker s \<and>
        agg (dispatch_frame cfg s f) = agg s \<and> life (dispatch_frame cfg s f) = life s"
    using Cons.prems pushes_no_sentinel
    by (auto simp: dispatch_frame_def push_vecs_same [where P = worker] push_vecs_same [where P = agg]
        push_vecs_same [where P = life] split: prod.splits)
  then show ?case using Cons.IH by simp
qed simp

lemma push_sentinel_last:
  assumes "Sentinel \<notin> set q" and "queue_cap cfg \<noteq> Some 0"
    and "\<forall>c. queue_cap cfg = Some c \<longrightarrow> length q \<le> c"
    and "enqueue (queue_cap cfg) Sentinel q = (q', d)"
  shows "q' \<noteq> [] \<and> last q' = Sentinel \<and> Sentinel \<notin> set (butlast q')"
proof (cases "queue_cap cfg")
  case None
  with assms show ?thesis by (auto simp: enqueue_def)
next
  case (Some c)
  with assms(2,3) have "0 < c" "length q \<le> c" by auto
  with Some assms(1,4) show ?thesis
    by (cases q) (auto simp: enqueue_def Let_def split: if_splits)
qed

lemma inv_life_step:
  assumes "sys_step cfg s s'" and "inv_life s" and "inv_queue cfg s" and "cap_ok cfg"
  shows "inv_life s'"
  using assms
proof (induction rule: sys_step.induct)
  case (ingest_point s p)
  then show ?case using dispatch_all_no_sentinel
    by (auto simp: ingest_def inv_life_def split: prod.splits)
next
  case (timer_tick s now)
  then show ?case using dispatch_all_no_sentinel
    by (auto simp: tick_def inv_life_def split: prod.splits)
next
  case (take s)
  then show ?case
    by (cases "queue s" rule: vecs.cases)
       (auto simp: take_item_def inv_life_def split: if_splits)
next
  case (finish s cv ms)
  then show ?case by (auto simp: finish_compare_def inv_life_def)
next
  case (stop s)
  let ?s1 = "dispatch_all cfg (force_close (agg s)) (s\<lparr>agg := Idle\<rparr>)"
  from stop have ns: "Sentinel \<notin> set (queue (s\<lparr>agg := Idle\<rparr>))" by (simp add: inv_life_def)
  note d = dispatch_all_no_sentinel [OF ns, of cfg "force_close (agg s)"]
  have "inv_queue cfg ?s1"
    using stop.prems by (auto intro!: inv_queue_dispatch_all inv_queue_ingest_fields)
  then have bound: "\<forall>c. queue_cap cfg = Some c \<longrightarrow> length (queue ?s1) \<le> c" by (simp add: inv_queue_def)
  obtain q' dd where e: "enqueue (queue_cap cfg) Sentinel (queue ?s1) = (q', dd)" by fastforce
  from push_sentinel_last [OF conjunct1 [OF d] _ bound e] stop.prems have "q' \<noteq> [] \<and> last q' = Sentinel \<and> Sentinel \<notin> set (butlast q')"
    by (simp add: cap_ok_def)
  with d e stop show ?case
    by (auto simp: shutdown_def push_item_def inv_life_def Let_def)
qed (auto simp: inv_life_def)

lemma inv_life_init: "inv_life sys_init"
  by (simp add: inv_life_def sys_init_def)

lemma reachable_inv_life: "reachable cfg s \<Longrightarrow> cap_ok cfg \<Longrightarrow> inv_life s"
proof (induction rule: reachable.induct)
  case init
  show ?case by (rule inv_life_init)
next
  case (step s s')
  then show ?case using reachable_inv_queue inv_life_step by blast
qed

end
