(* ===== verification/PipelineProperties.thy ===== *)
theory PipelineProperties
  imports PipelineInvariants
begin

text \<open>
  Properties of the whole pipeline, from the invariants: conservation of candidate
  points, well-formed frames, the FIFO queue, the drain at shutdown and its
  termination (as a step relation and as the detection thread's loop), the snapshot
  semantics of a comparison, and the scenario of the spec on a demonstration stream.
\<close>

definition demo_cfg :: PipeConfig where
  "demo_cfg = \<lparr>frame_time_cfg = 100, bg_cfg = \<lparr>bg_time = 500, bg_min_reflectivity = Fin 0, cell_size = 1\<rparr>,
     queue_cap = Some 2, repository = (\<lambda>_. None)\<rparr>"

definition drain_measure :: "System \<Rightarrow> nat" where
  "drain_measure s = 2 * length (queue s) + length (inflight (worker s))"

definition run_points :: "PipeConfig \<Rightarrow> Point list \<Rightarrow> System \<Rightarrow> System" where
  "run_points cfg ps s = foldl (\<lambda>s p. ingest cfg p s) s ps"

definition demo_stream :: "Point list" where
  "demo_stream = [mk_point 0 0 0 50 0, mk_point 0 0 0 50 300, mk_point 1 1 1 50 600,
                  mk_point (11/10) 1 1 50 650, mk_point 1 1 1 50 710, mk_point 1 (11/10) 1 50 760]"

text \<open>C7. Conservation of candidate points: in every reachable state the points of
  the frames handed to the characterizer, followed by the points of the frame still
  open, are exactly the Candidate points of the input, in arrival order; no point is
  lost, duplicated or reordered.\<close>

theorem pipeline_conservation:
  "reachable cfg s \<Longrightarrow> concat (map frame_points (dispatched s)) @ open_points (agg s) = candidates s"
  using reachable_inv_frames by (simp add: inv_frames_def)

text \<open>C30. Every frame handed to the characterizer in a reachable state is non-empty,
  holds only finite points, and spans less than one frame time from its start.\<close>

theorem pipeline_frames_well_formed:
  assumes "reachable cfg s" and "f \<in> set (dispatched s)"
  shows "frame_points f \<noteq> [] \<and>
    (\<forall>p \<in> set (frame_points f). point_finite p \<and> frame_start f \<le> timestamp p \<and>
       (0 < unat (frame_time_cfg cfg) \<longrightarrow> timestamp p - frame_start f < unat (frame_time_cfg cfg)))"
proof -
  from reachable_inv_frames [OF assms(1)] have inv: "inv_frames cfg s" .
  then have "set (frame_points f) \<subseteq> set (candidates s)"
    using assms(2) by (auto simp: inv_frames_def dest!: arg_cong [where f = set])
  with inv assms(2) show ?thesis by (auto simp: inv_frames_def frame_ok_def)
qed

text \<open>C8. The handoff queue is FIFO: every vector pushed is the characteristics of a
  dispatched frame, in order; the vectors compared, the one in flight and those queued
  form a subsequence of the pushed ones, every pushed vector is accounted for as
  processed, in flight, queued or dropped, and a bounded queue never exceeds its bound.\<close>

theorem pipeline_queue_fifo:
  assumes "reachable cfg s"
  shows "pushed s = map (\<lambda>f. characteristics (frame_points f)) (dispatched s) \<and>
         subseq (processed s @ inflight (worker s) @ vecs (queue s)) (pushed s) \<and>
         length (pushed s) = length (processed s) + length (inflight (worker s)) + length (vecs (queue s)) + dropped s \<and>
         (\<forall>c. queue_cap cfg = Some c \<longrightarrow> length (queue s) \<le> c)"
  using reachable_inv_frames [OF assms] reachable_inv_queue [OF assms]
  by (simp add: inv_frames_def inv_queue_def)

text \<open>C11. After the shutdown has completed (the detection thread has been joined), the
  queue is empty, the detection thread has exited, every pushed vector has been
  compared or dropped, and there is one result per compared vector.\<close>

theorem shutdown_drains:
  assumes "reachable cfg s" and "cap_ok cfg" and "life s = Stopped"
  shows "queue s = [] \<and> worker s = Exited \<and> length (pushed s) = length (processed s) + dropped s \<and>
         length (results (det s)) = length (processed s)"
  using reachable_inv_life [OF assms(1,2)] reachable_inv_queue [OF assms(1)] assms(3)
  by (auto simp: inv_life_def inv_queue_def)

lemma drain_progress:
  assumes "reachable cfg s" and "cap_ok cfg" and "life s = Draining"
  shows "(worker s = Exited \<and> sys_step cfg s (s\<lparr>life := Stopped\<rparr>)) \<or>
         (\<exists>s'. sys_step cfg s s' \<and> life s' = Draining \<and> drain_measure s' < drain_measure s)"
proof -
  from reachable_inv_life [OF assms(1,2)] assms(3) have il:
    "(worker s = Exited \<and> queue s = []) \<or> (worker s \<noteq> Exited \<and> queue s \<noteq> [])"
    by (auto simp: inv_life_def)
  show ?thesis
  proof (cases "worker s")
    case WIdle
    with il have q: "queue s \<noteq> []" by simp
    have "sys_step cfg s (take_item s)" using WIdle q by (rule sys_step.take)
    moreover have "life (take_item s) = Draining \<and> drain_measure (take_item s) < drain_measure s"
      using q assms(3) WIdle
      by (cases "queue s" rule: vecs.cases) (auto simp: take_item_def drain_measure_def)
    ultimately show ?thesis by blast
  next
    case (Comparing cv ms)
    then have "sys_step cfg s (finish_compare s)" by (rule sys_step.finish)
    moreover have "life (finish_compare s) = Draining \<and> drain_measure (finish_compare s) < drain_measure s"
      using Comparing assms(3) by (simp add: finish_compare_def drain_measure_def)
    ultimately show ?thesis by blast
  next
    case Exited
    with assms(3) show ?thesis by (blast intro: sys_step.join)
  qed
qed

text \<open>C9. Shutdown terminates: from every reachable draining state some sequence of
  steps reaches the stopped state.\<close>

theorem draining_terminates:
  assumes "reachable cfg s" and "cap_ok cfg" and "life s = Draining"
  shows "\<exists>s'. (sys_step cfg)\<^sup>*\<^sup>* s s' \<and> life s' = Stopped"
  using assms
proof (induction "drain_measure s" arbitrary: s rule: less_induct)
  case less
  from drain_progress [OF less.prems] show ?case
  proof
    assume "worker s = Exited \<and> sys_step cfg s (s\<lparr>life := Stopped\<rparr>)"
    then show ?thesis by (metis System.select_convs(8) System.surjective System.update_convs(8)
        r_into_rtranclp)
  next
    assume "\<exists>s'. sys_step cfg s s' \<and> life s' = Draining \<and> drain_measure s' < drain_measure s"
    then obtain s' where st: "sys_step cfg s s'" and l: "life s' = Draining"
      and m: "drain_measure s' < drain_measure s" by blast
    from less.prems(1) st have "reachable cfg s'" by (rule reachable.step)
    from less.hyps [OF m this less.prems(2) l] obtain s'' where
      "(sys_step cfg)\<^sup>*\<^sup>* s' s''" "life s'' = Stopped" by blast
    with st show ?thesis by (meson converse_rtranclp_into_rtranclp)
  qed
qed

lemma ingest_clock_life:
  "inv_frames cfg s \<Longrightarrow> clock (ingest cfg p s) = timestamp p \<and> life (ingest cfg p s) = life s"
  using dispatch_all_effect by (auto simp: ingest_def inv_frames_def split: prod.splits)

lemma reachable_run_points:
  "reachable cfg s \<Longrightarrow> life s = Running \<Longrightarrow> sorted (clock s # map timestamp ps) \<Longrightarrow>
   reachable cfg (run_points cfg ps s)"
proof (induction ps arbitrary: s)
  case Nil
  then show ?case by (simp add: run_points_def)
next
  case (Cons p ps)
  have r: "reachable cfg (ingest cfg p s)"
    using Cons.prems by (auto intro: reachable.step sys_step.ingest_point)
  have "clock (ingest cfg p s) = timestamp p \<and> life (ingest cfg p s) = Running"
    using ingest_clock_life [OF reachable_inv_frames [OF Cons.prems(1)]] Cons.prems(2) by simp
  with Cons.IH [OF r] Cons.prems(3) show ?case by (simp add: run_points_def)
qed

lemmas pipeline_eval = run_points_def demo_stream_def demo_cfg_def ingest_def classify_def cell_key_def
  on_point_def on_tick_def emit_frame_def dispatch_all_def sys_init_def bg_init_def
  point_finite_def mk_point_def touch_cell_def dispatch_frame_def frame_ops_def push_item_def
  enqueue_def char_init_def newPoint_def extractCharacteristics_def newObject_def shutdown_def
  force_close_def

lemma demo_run_reachable: "reachable demo_cfg (run_points demo_cfg demo_stream sys_init)"
  by (rule reachable_run_points [OF reachable.init]) (simp_all add: sys_init_def demo_stream_def)

lemma demo_stop_reachable: "reachable demo_cfg (shutdown demo_cfg sys_init)"
  by (rule reachable.step [OF reachable.init sys_step.stop]) (simp add: sys_init_def)

lemma demo_stop_state:
  "life (shutdown demo_cfg sys_init) = Draining \<and> queue (shutdown demo_cfg sys_init) = [Sentinel] \<and>
   worker (shutdown demo_cfg sys_init) = WIdle"
  by (simp add: pipeline_eval)

theorem pipeline_conservation_witness:
  "concat (map frame_points (dispatched (run_points demo_cfg demo_stream sys_init))) @
     open_points (agg (run_points demo_cfg demo_stream sys_init)) =
   candidates (run_points demo_cfg demo_stream sys_init)"
  by (rule pipeline_conservation [OF demo_run_reachable])

theorem pipeline_frames_well_formed_witness:
  "point_finite (mk_point (11/10) 1 1 50 650) \<and> timestamp (mk_point (11/10) 1 1 50 650) - 600 < 100"
proof -
  have "\<lparr>frame_start = 600, frame_points = [mk_point 1 1 1 50 600, mk_point (11/10) 1 1 50 650]\<rparr>
          \<in> set (dispatched (run_points demo_cfg demo_stream sys_init))"
    by (simp add: pipeline_eval Let_def)
  from pipeline_frames_well_formed [OF demo_run_reachable this] show ?thesis
    by (simp add: demo_cfg_def)
qed

theorem pipeline_queue_fifo_witness:
  "length (queue (run_points demo_cfg demo_stream sys_init)) \<le> 2"
  using pipeline_queue_fifo [OF demo_run_reachable] by (simp add: demo_cfg_def)

theorem shutdown_drains_witness:
  "queue ((take_item (shutdown demo_cfg sys_init))\<lparr>life := Stopped\<rparr>) = []"
proof -
  have t: "sys_step demo_cfg (shutdown demo_cfg sys_init) (take_item (shutdown demo_cfg sys_init))"
    using demo_stop_state by (intro sys_step.take) simp_all
  have r: "reachable demo_cfg (take_item (shutdown demo_cfg sys_init))"
    by (rule reachable.step [OF demo_stop_reachable t])
  have "life (take_item (shutdown demo_cfg sys_init)) = Draining \<and> worker (take_item (shutdown demo_cfg sys_init)) = Exited"
    using demo_stop_state by (simp add: take_item_def)
  then have "reachable demo_cfg ((take_item (shutdown demo_cfg sys_init))\<lparr>life := Stopped\<rparr>)"
    by (blast intro: reachable.step [OF r] sys_step.join)
  from shutdown_drains [OF this] show ?thesis by (simp add: cap_ok_def demo_cfg_def)
qed

theorem draining_terminates_witness:
  "\<exists>s'. (sys_step demo_cfg)\<^sup>*\<^sup>* (shutdown demo_cfg sys_init) s' \<and> life s' = Stopped"
  using draining_terminates [OF demo_stop_reachable] demo_stop_state by (simp add: cap_ok_def demo_cfg_def)

lemma sentinel_last_split:
  "Sentinel \<notin> set xs \<Longrightarrow>
   takeWhile (\<lambda>x. x \<noteq> Sentinel) (xs @ [Sentinel]) = xs \<and>
   dropWhile (\<lambda>x. x \<noteq> Sentinel) (xs @ [Sentinel]) = [Sentinel]"
  by (induction xs) auto

text \<open>C10. The detection thread's loop terminates after shutdown: from every reachable
  draining state whose worker is idle it returns, with the queue empty, the worker
  exited, and every pending vector compared, in order, against the model snapshot.\<close>

theorem detection_loop_drains:
  assumes "reachable cfg s" and "cap_ok cfg" and "life s = Draining" and "worker s = WIdle"
  shows "\<exists>s'. detection_loop s = Some s' \<and> worker s' = Exited \<and> queue s' = [] \<and>
           processed s' = processed s @ vecs (queue s) \<and>
           results (det s') = results (det s) @ map (compare_models (getModels (det s))) (vecs (queue s))"
proof -
  from reachable_inv_life [OF assms(1,2)] assms(3,4) have
    ne: "queue s \<noteq> []" and l: "last (queue s) = Sentinel" and nb: "Sentinel \<notin> set (butlast (queue s))"
    by (auto simp: inv_life_def)
  define xs where "xs = butlast (queue s)"
  have q: "queue s = xs @ [Sentinel]" using ne l unfolding xs_def by (metis append_butlast_last_id)
  have nx: "Sentinel \<notin> set xs" using nb by (simp add: xs_def)
  have "Sentinel \<in> set (queue s)" by (simp add: q)
  from detection_loop_sentinel [OF this] show ?thesis
    by (simp add: q sentinel_last_split [OF nx])
qed

theorem detection_loop_drains_witness:
  "\<exists>s'. detection_loop (shutdown demo_cfg sys_init) = Some s' \<and> queue s' = []"
proof -
  have "cap_ok demo_cfg" by (simp add: cap_ok_def demo_cfg_def)
  from detection_loop_drains [OF demo_stop_reachable this] demo_stop_state show ?thesis by auto
qed

end
