(* ===== verification/Spec2Isabelle.thy ===== *)
theory Spec2Isabelle
  imports CliProperties PipelineProperties
begin

text \<open>
  Verification development of the LiDAR-based anomaly detector.

  \<^bold>\<open>The program.\<close>  The staged sources are the entry point src/src/main/main.cc
  (command-line parsing and the start of the application) and two interfaces,
  src/include/object_characterization/IObjectCharacterizator.hpp
  (\<open>newPoint\<close>, \<open>newObject\<close>, \<open>extractCharacteristics\<close>) and
  src/include/anomaly_detection/IAnomalyDetector.hh (\<open>loadModels\<close>, \<open>getModels\<close>,
  \<open>setModel\<close>, \<open>compare\<close>, a protected \<open>executionThread\<close>).  \<open>main\<close> parses the
  command line and constructs the \<open>App\<close>, which runs the pipeline of spec.md: an
  ingestion thread passes each point through the Background Filter, the Frame
  Aggregator and the Object Characterizer and posts characteristics vectors to a
  handoff queue; a detection thread compares them with the Anomaly Detector.  Only
  main.cc and the two interfaces are in the sources; the behaviour of the pipeline
  components is taken from spec.md.

  \<^bold>\<open>Theories.\<close>
  \<^item> Prelude: machine types (\<open>u32\<close>, \<open>u64\<close>), C++ \<open>float\<close> as \<open>flt\<close> (exact real
    or IEEE special value, IEEE comparisons), the early-return combinator
    \<open>sum_bind\<close>, shared list, option and word lemmas.
  \<^item> LibC: \<open>std::stoul\<close> and \<open>std::stof\<close> as libstdc++/glibc implement them
    (exceptions as \<open>conv_error\<close> values), and decimal printing; the round trip
    \<open>stoul (decimal_string n) = n\<close> on \<open>[0, ULONG_MAX]\<close>.
  \<^item> InputParser: the command-line helper used by \<open>parseInput\<close>
    (\<open>optionExists\<close>, \<open>getOption\<close> returning a reference into its token vector).
  \<^item> CommandLine: main.cc as written.  \<open>ParsedInput\<close> is a record whose
    uninitialised fields are \<open>None\<close>; \<open>parseInput\<close> is the composition of one
    definition per block of the source (\<open>parse_source\<close> lines 74-120,
    \<open>parse_frame_time\<close> 122-142, \<open>parse_time_mode\<close> 144-176,
    \<open>parse_background_time\<close> 178-198, \<open>parse_min_reflectivity\<close> 200-220), chained
    by \<open>sum_bind\<close> so that each \<open>return missusage(pi)\<close> is an \<open>Inl\<close>;
    \<open>usage\<close>, \<open>help_msg\<close> and \<open>missusage\<close> give the printed lines; \<open>main\<close>
    returns the console output, the arguments passed to the \<open>App\<close> constructor and the
    exit status.  The pointer \<open>broadcast_code\<close> is modelled with an explicit store:
    \<open>deref\<close> reads it in the parser's token vector while that exists and fails with
    \<open>DanglingPointer\<close> after \<open>parseInput\<close> has returned.
  \<^item> CliSpec: \<open>cli_spec\<close>, an abstract, order-independent specification of the
    accepted command lines, the printer \<open>cli_args\<close>, each step of \<open>parseInput\<close>
    restated against the specification of its option, and the case form
    \<open>parseInput_cases\<close>; the refinement theorems for \<open>parseInput\<close> and \<open>main\<close>
    and the print/parse round trip.
  \<^item> CliProperties: the behaviour of \<open>parseInput\<close> and \<open>main\<close> on every branch.
  \<^item> Points: the point record (coordinates and reflectivity as \<open>flt\<close>, timestamp in ms).
  \<^item> BackgroundFilter: \<open>classify\<close>, one call per point, on a state of learning-window
    start, cells (a map from quantised coordinates) and malformed count.
  \<^item> FrameAggregator: the \<open>Idle\<close>/\<open>Accumulating\<close> state machine with
    \<open>on_point\<close>, \<open>on_tick\<close> and \<open>force_close\<close>, and its invariant \<open>agg_ok\<close>.
  \<^item> ObjectCharacterizer: the three operations of the interface over a point buffer,
    the one-pass \<open>characteristics\<close> and its reference \<open>characteristics_spec\<close>.
  \<^item> AnomalyDetector: the four operations of the interface over a state of model set
    and delivered results; \<open>compare_models\<close> picks a nearest model.
  \<^item> Pipeline, PipelineInvariants, PipelineProperties: the whole system as a record
    \<open>System\<close> (components' states, queue,
    lifecycle, detection worker and ghost histories of candidates, dispatched frames,
    pushed and processed vectors) and an inductive step relation \<open>sys_step\<close> whose
    rules are the atomic actions of both threads (point, timer tick, take, finish,
    setModel, loadModels, stop, join); \<open>reachable\<close> closes it from \<open>sys_init\<close>.
    The detection thread's loop after shutdown is also given as code, the
    \<open>partial_function (option)\<close> \<open>detection_loop\<close> (blocking on an empty queue is
    \<open>None\<close>).  The invariants and their preservation are in PipelineInvariants, the
    properties in PipelineProperties.
  \<^item> Spec2Isabelle (this theory): properties spanning the command line and the pipeline.

  \<^bold>\<open>What the lemmas show.\<close>  For the command line: \<open>parseInput\<close> refines
  \<open>cli_spec\<close> and \<open>main\<close> starts the \<open>App\<close> exactly on the configurations it gives;
  the three outcomes of \<open>parseInput\<close>; precedence of help and of \<open>-b\<close>; defaults;
  first error wins; missing values; values that are themselves option names; the
  wrap-around of \<open>-d\<close> and \<open>-g\<close> modulo \<open>2^32\<close>, the acceptance of negative
  durations and of trailing characters; that
  \<open>main\<close> returns \<open>EXIT_SUCCESS\<close> on rejected input; the dangling read of the
  broadcast code; the range of \<open>-r\<close> against the overflow of \<open>std::stof\<close>; the
  round trip: \<open>parseInput (prog # cli_args c)\<close> gives back \<open>c\<close> for every printable
  configuration.  For the pipeline, by rule induction over \<open>reachable\<close>: conservation
  and order of candidate points through the frames, well-formed frames, FIFO order
  and accounting of the queue with its bound, a complete drain after the join, and
  termination of the drain (liveness by induction on the measure
  \<open>2 * |queue| + |in flight|\<close>, which every detection step decreases, and
  termination of \<open>detection_loop\<close> from every reachable draining state: it returns
  exactly when a sentinel is queued).  For the components: the equivalence of the
  one-pass characteristics with the reference, the discarding by \<open>newObject\<close>, the
  zero-volume case of identical points, the best match of \<open>compare\<close>, the upsert of
  \<open>setModel\<close>, and the classification of the Background Filter on every branch.

  \<^bold>\<open>Bounds and choices.\<close>  No fuel is used: every loop of the components is a fold
  over a finite list; the detection thread's loop, which blocks on an empty queue, is a
  \<open>partial_function (option)\<close> whose return is proved from every reachable draining
  state, and the drain at shutdown is proved to end as a run of the step relation.
  \<open>unsigned long\<close> is 64 bits (LP64), \<open>uint32_t\<close> is \<open>32 word\<close>.  The queue bound
  \<open>queue_cap\<close> is a parameter; the liveness and drain theorems assume \<open>cap_ok\<close> (a
  bound, if any, of at least one slot).

  \<^bold>\<open>Not modelled.\<close>  Console formatting beyond the list of printed lines,
  \<open>printDebug\<close> (debug builds only), the point source (Livox SDK, file reader) and
  the persistence of models and results, which are external I/O; the timing
  chronometers selected by \<open>-t\<close>.  The rounding of \<open>std::stof\<close> to a 24-bit
  mantissa is not modelled: the model keeps the exact decimal value, and only the
  overflow threshold \<open>2^128 - 2^103\<close>, at which round-to-nearest gives infinity, is
  taken from IEEE single precision.  The floor value \<open>-r\<close> stores is therefore exact
  only for values a \<open>float\<close> represents (integers up to \<open>2^24\<close>, for instance); the
  round trip of CliSpec is stated for integral floors below \<open>2^127\<close> and holds of the
  program for the representable ones.  The behaviour of the components behind the two
  interfaces (whose headers declare only pure virtual methods) comes from spec.md:
  \<open>loadModels\<close> and \<open>compare\<close> return \<open>void\<close> in the header, and the model makes
  their error and result explicit as the spec describes them.\<close>

subsection \<open>Properties spanning components\<close>

lemma main_app_accepted:
  "is_ok (fst (parseInput argv)) \<Longrightarrow>
   \<exists>a. main_app (main argv) = Some a \<and> app_min_reflectivity a = min_reflectivity (fst (parseInput argv))"
  by (auto simp: main_def split: prod.splits)

text \<open>C31. A reflectivity floor given as \<open>-r nan\<close> is accepted: when the other
  options are valid, \<open>std::stof\<close> parses \<open>nan\<close>, \<open>main\<close> starts the App with a NaN
  floor, and, since every comparison with NaN is false, the Background Filter then
  behaves as with no floor at all: no point is ever discarded for low reflectivity.\<close>

theorem main_nan_reflectivity_floor:
  assumes "\<not> help_requested (drop 1 argv)" and "source_spec (drop 1 argv) \<noteq> None"
    and "duration_spec (drop 1 argv) ''-d'' DEFAULT_FRAME_TIME \<noteq> None"
    and "mode_spec (drop 1 argv) \<noteq> None"
    and "duration_spec (drop 1 argv) ''-g'' DEFAULT_BACKGROUND_TIME \<noteq> None"
    and "arg_after (drop 1 argv) ''-r'' = Some ''nan''"
  shows "\<exists>a. main_app (main argv) = Some a \<and> app_min_reflectivity a = NaN \<and>
           (\<forall>cfg st p. classify (cfg\<lparr>bg_min_reflectivity := app_min_reflectivity a\<rparr>) st p =
                       classify (cfg\<lparr>bg_min_reflectivity := NInf\<rparr>) st p)"
proof -
  have "stof ''nan'' = Inr NaN" by (simp add: conv_eval)
  then have "reflectivity_spec (drop 1 argv) = Some NaN"
    using assms(6) by (simp add: reflectivity_spec_def)
  with assms(1-5) have "is_ok (fst (parseInput argv)) \<and> min_reflectivity (fst (parseInput argv)) = NaN"
    by (auto simp: parseInput_cases Let_def ParsedInput_new_def split: option.splits if_splits)
  with main_app_accepted [of argv] show ?thesis by (auto simp: classify_def Let_def)
qed

theorem main_nan_reflectivity_floor_witness:
  "\<exists>a. main_app (main [''lbad'', ''-f'', ''scan.csv'', ''-r'', ''nan'']) = Some a \<and> app_min_reflectivity a = NaN"
  using main_nan_reflectivity_floor [of "[''lbad'', ''-f'', ''scan.csv'', ''-r'', ''nan'']"]
  by (simp add: help_requested_def source_spec_def arg_after_def mode_spec_def duration_spec_def) blast

end
